theory Spec2Isabelle
  imports Main
begin

section \<open>The engine interface seen by \<open>PivotExtractor\<close>\<close>

text \<open>
  The extractor of \<open>src/pivot-extractor.js\<close> talks to a remote object through three
  asynchronous calls: \<open>getLayout\<close>, \<open>getHyperCubePivotData\<close> and \<open>getHyperCubeData\<close>.
  Each call either resolves to a value or rejects with an error object, and may change
  the remote side. The remote side is a state of an arbitrary type \<open>'s\<close>; a call takes
  the state and returns its answer with the next state. Numbers are integers (window
  coordinates and counters); rows are of an arbitrary type \<open>'r\<close> for the extraction and
  lists of cells for the formatter.

  Left out, as they change none of the values computed: the console output, the pause
  of 10 ms between two pages, and the constant path \<open>/qHyperCubeDef\<close> passed to every
  fetch. Every fetch of the source passes an array of one window; the model passes the
  window. A rejected call rejects with an error object, and every element of a resolved
  page array is an object.

  The rows of a page are appended by \<open>allData.push(...matrixData)\<close>, a call with one
  argument per row. A JavaScript engine accepts only so many arguments in one call and
  throws a \<open>RangeError\<close> beyond; the source does not fix that number, so it is the
  parameter \<open>lim\<close> of the model. The source's numbers are doubles, which are exact on
  the integers below \<open>2^53\<close>; the model's integers stand for them in that range.
\<close>

text \<open>The \<open>code\<close> property of an error object: absent, a number or a string.\<close>

datatype errcode = NoCode | NumCode int | StrCode string

record fault =
  code :: errcode
  parameter :: "string option"
  message :: string

text \<open>One element of the page array passed to a fetch call.\<close>

record window =
  qTop :: int
  qLeft :: int
  qHeight :: int
  qWidth :: int

text \<open>
  A data page of the answer; \<open>qMatrix\<close> is \<open>None\<close> when the property is absent or null.
  An empty array is \<open>Some []\<close>, which JavaScript treats as true in a condition.
\<close>

record 'r dataPage =
  qMatrix :: "'r list option"

text \<open>
  The answer of a fetch: a rejection, or the resolved \<open>pageData\<close>, which is \<open>None\<close>
  when null or undefined and the array of pages otherwise.
\<close>

datatype 'r response = Throws fault | Resolves "'r dataPage list option"

record fieldInfo =
  qFallbackTitle :: string

record size =
  qcx :: int
  qcy :: int

record hyperCube =
  qDimensionInfo :: "fieldInfo list"
  qMeasureInfo :: "fieldInfo list"
  qSize :: size
  qMode :: string

record layout =
  qHyperCube :: hyperCube

record ('s, 'r) pivotObject =
  getLayout :: "'s \<Rightarrow> (fault + layout) \<times> 's"
  getHyperCubePivotData :: "window \<Rightarrow> 's \<Rightarrow> 'r response \<times> 's"
  getHyperCubeData :: "window \<Rightarrow> 's \<Rightarrow> 'r response \<times> 's"

datatype fetchMethod = GetHyperCubePivotData | GetHyperCubeData

section \<open>\<open>extractPivotData\<close>\<close>

text \<open>The object returned by an extraction: the rows and the metadata.\<close>

record metadata =
  dimensions :: "fieldInfo list"
  measures :: "fieldInfo list"
  totalRows :: int
  totalColumns :: int
  extractedRows :: nat
  pageSize :: int
  pagesProcessed :: int

record 'r extractedData =
  data :: "'r list"
  metadata :: metadata

record options =
  pageSize :: int
  maxPages :: int
  startRow :: int
  startCol :: int
  columnCount :: "int option"

definition defaultOptions :: options where
  "defaultOptions =
     \<lparr>pageSize = 1000, maxPages = 10, startRow = 0, startCol = 0, columnCount = None\<rparr>"

text \<open>
  The variables of the paging loop, the state of the remote side, and the log of the
  fetch calls issued so far (oldest first).
\<close>

record ('s, 'r) extraction =
  allData :: "'r list"
  currentRow :: int
  pagesProcessed :: int
  engine :: 's
  calls :: "(fetchMethod \<times> window) list"

text \<open>One fetch on the remote side, by the name of the call.\<close>

definition fetch ::
  "('s, 'r) pivotObject \<Rightarrow> fetchMethod \<Rightarrow> window \<Rightarrow> 's \<Rightarrow> 'r response \<times> 's" where
  "fetch obj m w s =
     (case m of
        GetHyperCubePivotData \<Rightarrow> getHyperCubePivotData obj w s
      | GetHyperCubeData \<Rightarrow> getHyperCubeData obj w s)"

text \<open>Issue one fetch call: log it, run it on the remote side, keep the new remote state.\<close>

definition invoke ::
  "('s, 'r) pivotObject \<Rightarrow> fetchMethod \<Rightarrow> window \<Rightarrow> ('s, 'r) extraction
     \<Rightarrow> 'r response \<times> ('s, 'r) extraction" where
  "invoke obj m w st =
     (case fetch obj m w (engine st) of
        (r, s') \<Rightarrow> (r, st\<lparr>engine := s', calls := calls st @ [(m, w)]\<rparr>))"

text \<open>
  The test \<open>pageData && pageData.length > 0 && pageData[0].qMatrix\<close>: the matrix of the
  first page when the test passes, \<open>None\<close> when it fails.
\<close>

definition matrixOf :: "'r dataPage list option \<Rightarrow> 'r list option" where
  "matrixOf pageData =
     (case pageData of
        None \<Rightarrow> None
      | Some [] \<Rightarrow> None
      | Some (p # _) \<Rightarrow> qMatrix p)"

text \<open>The three tests of the error handler, in the order of the source.\<close>

definition pageTooLarge :: "fault \<Rightarrow> bool" where
  "pageTooLarge e = (code e = NumCode 6001 \<or> parameter e = Some ''Page(s) too large'')"

definition notInPivotMode :: "fault \<Rightarrow> bool" where
  "notInPivotMode e = (code e = NumCode 6002 \<or> parameter e = Some ''Not in pivot mode'')"

definition requestAborted :: "fault \<Rightarrow> bool" where
  "requestAborted e = (code e = StrCode ''LOCERR_GENERIC_ABORTED'')"

text \<open>
  How one run of the loop body ends: \<open>Break\<close> leaves the loop, \<open>Continue\<close> goes back to
  the loop test (a \<open>continue\<close> statement, or the end of the body).
\<close>

datatype 'a control = Continue 'a | Break 'a

definition rowsToFetch :: "hyperCube \<Rightarrow> options \<Rightarrow> ('s, 'r) extraction \<Rightarrow> int" where
  "rowsToFetch hc opts st = min (pageSize opts) (qcy (qSize hc) - currentRow st)"

definition primaryMethod :: "hyperCube \<Rightarrow> fetchMethod" where
  "primaryMethod hc =
     (if qMode hc = ''EQ_DATA_MODE_PIVOT'' then GetHyperCubePivotData else GetHyperCubeData)"

definition pageWindow :: "options \<Rightarrow> int \<Rightarrow> ('s, 'r) extraction \<Rightarrow> int \<Rightarrow> window" where
  "pageWindow opts totalCols st height =
     \<lparr>qTop = currentRow st, qLeft = startCol opts, qHeight = height, qWidth = totalCols\<rparr>"

text \<open>
  The error thrown by \<open>allData.push(...matrixData)\<close> when the page has more than \<open>lim\<close>
  rows: it has neither a \<open>code\<close> nor a \<open>parameter\<close>.
\<close>

definition rangeError :: fault where
  "rangeError =
     \<lparr>code = NoCode, parameter = None, message = ''Maximum call stack size exceeded''\<rparr>"

text \<open>
  The \<open>try\<close> block of the loop body, lines 73 to 110: the fetch chosen by the layout
  mode, then the test of the answer. \<open>Inr\<close> is the way the block ends without an
  error; \<open>Inl\<close> is the error caught at line 112, with the state at the throw: the
  rejection of the fetch, or the \<open>RangeError\<close> of the push, which appends nothing.
\<close>

definition tryPage ::
  "nat \<Rightarrow> ('s, 'r) pivotObject \<Rightarrow> hyperCube \<Rightarrow> options \<Rightarrow> int \<Rightarrow> ('s, 'r) extraction
     \<Rightarrow> (fault \<times> ('s, 'r) extraction) + ('s, 'r) extraction control" where
  "tryPage lim obj hc opts totalCols st =
     (let n = rowsToFetch hc opts st in
      case invoke obj (primaryMethod hc) (pageWindow opts totalCols st n) st of
        (Throws pageError, st1) \<Rightarrow> Inl (pageError, st1)
      | (Resolves pageData, st1) \<Rightarrow>
          (case matrixOf pageData of
             None \<Rightarrow> Inr (Break st1)
           | Some matrixData \<Rightarrow>
               if length matrixData \<le> lim then
                 Inr (Continue (st1\<lparr>allData := allData st1 @ matrixData,
                                      currentRow := currentRow st1 + n,
                                      pagesProcessed := pagesProcessed st1 + 1\<rparr>))
               else Inl (rangeError, st1)))"

text \<open>
  The \<open>catch\<close> block, lines 112 to 171, for the error \<open>pageError\<close> caught in the state
  \<open>st1\<close>; \<open>n\<close> is \<open>rowsToFetch\<close>. In both inner \<open>try\<close> blocks an answer that fails the
  test falls through to the end of the loop body, and any error, the \<open>RangeError\<close> of
  the push included, is caught by the inner \<open>catch\<close>, which breaks.
\<close>

definition onPageError ::
  "nat \<Rightarrow> ('s, 'r) pivotObject \<Rightarrow> options \<Rightarrow> int \<Rightarrow> int \<Rightarrow> fault \<Rightarrow> ('s, 'r) extraction
     \<Rightarrow> ('s, 'r) extraction control" where
  "onPageError lim obj opts totalCols n pageError st1 =
     (if pageTooLarge pageError then
        (let newPageSize = max 10 (n div 2) in
         case invoke obj GetHyperCubeData (pageWindow opts totalCols st1 newPageSize) st1 of
           (Throws retryError, st2) \<Rightarrow> Break st2
         | (Resolves pageData, st2) \<Rightarrow>
             (case matrixOf pageData of
                None \<Rightarrow> Continue st2
              | Some matrixData \<Rightarrow>
                  if length matrixData \<le> lim then
                    Continue (st2\<lparr>allData := allData st2 @ matrixData,
                                   currentRow := currentRow st2 + int (length matrixData),
                                   pagesProcessed := pagesProcessed st2 + 1\<rparr>)
                  else Break st2))
      else if notInPivotMode pageError then
        (case invoke obj GetHyperCubeData (pageWindow opts totalCols st1 n) st1 of
           (Throws straightError, st2) \<Rightarrow> Break st2
         | (Resolves pageData, st2) \<Rightarrow>
             (case matrixOf pageData of
                None \<Rightarrow> Continue st2
              | Some matrixData \<Rightarrow>
                  if length matrixData \<le> lim then
                    Continue (st2\<lparr>allData := allData st2 @ matrixData,
                                   currentRow := currentRow st2 + n,
                                   pagesProcessed := pagesProcessed st2 + 1\<rparr>)
                  else Break st2))
      else if requestAborted pageError then Continue st1
      else Break st1)"

text \<open>The body of the \<open>while\<close> loop, lines 68 to 171.\<close>

definition pageStep ::
  "nat \<Rightarrow> ('s, 'r) pivotObject \<Rightarrow> hyperCube \<Rightarrow> options \<Rightarrow> int \<Rightarrow> ('s, 'r) extraction
     \<Rightarrow> ('s, 'r) extraction control" where
  "pageStep lim obj hc opts totalCols st =
     (case tryPage lim obj hc opts totalCols st of
        Inr outcome \<Rightarrow> outcome
      | Inl (pageError, st1) \<Rightarrow>
          onPageError lim obj opts totalCols (rowsToFetch hc opts st) pageError st1)"

text \<open>
  The loop itself. It need not end, so it is a partial function: \<open>None\<close> is the run
  that never leaves the loop.
\<close>

partial_function (option) extractLoop ::
  "nat \<Rightarrow> ('s, 'r) pivotObject \<Rightarrow> hyperCube \<Rightarrow> options \<Rightarrow> int \<Rightarrow> ('s, 'r) extraction
     \<Rightarrow> ('s, 'r) extraction option" where
  "extractLoop lim obj hc opts totalCols st =
     (if currentRow st < qcy (qSize hc) \<and> pagesProcessed st < maxPages opts then
        (case pageStep lim obj hc opts totalCols st of
           Continue st' \<Rightarrow> extractLoop lim obj hc opts totalCols st'
         | Break st' \<Rightarrow> Some st')
      else Some st)"

text \<open>\<open>columnCount || hypercube.qSize.qcx\<close>: null and 0 both give the cube's width.\<close>

definition totalColsOf :: "hyperCube \<Rightarrow> options \<Rightarrow> int" where
  "totalColsOf hc opts =
     (case columnCount opts of
        None \<Rightarrow> qcx (qSize hc)
      | Some c \<Rightarrow> if c = 0 then qcx (qSize hc) else c)"

definition initialState :: "options \<Rightarrow> 's \<Rightarrow> ('s, 'r) extraction" where
  "initialState opts s =
     \<lparr>allData = [], currentRow = startRow opts, pagesProcessed = 0,
      engine = s, calls = []\<rparr>"

text \<open>The object literal returned at lines 176 to 187.\<close>

definition resultOf :: "hyperCube \<Rightarrow> options \<Rightarrow> ('s, 'r) extraction \<Rightarrow> 'r extractedData" where
  "resultOf hc opts st =
     \<lparr>data = allData st,
      metadata =
        \<lparr>dimensions = qDimensionInfo hc,
         measures = qMeasureInfo hc,
         totalRows = qcy (qSize hc),
         totalColumns = totalColsOf hc opts,
         extractedRows = length (allData st),
         metadata.pageSize = pageSize opts,
         metadata.pagesProcessed = pagesProcessed st\<rparr>\<rparr>"

text \<open>
  \<open>extractPivotData\<close>: \<open>None\<close> when the loop never ends; otherwise the rethrown error of
  \<open>getLayout\<close> or the returned object, with the final remote state and the log of the
  fetch calls.
\<close>

definition extractPivotData ::
  "nat \<Rightarrow> ('s, 'r) pivotObject \<Rightarrow> options \<Rightarrow> 's
     \<Rightarrow> ((fault + 'r extractedData) \<times> 's \<times> (fetchMethod \<times> window) list) option" where
  "extractPivotData lim obj opts s =
     (case getLayout obj s of
        (Inl error, s1) \<Rightarrow> Some (Inl error, s1, [])
      | (Inr lay, s1) \<Rightarrow>
          (let hc = qHyperCube lay in
           case extractLoop lim obj hc opts (totalColsOf hc opts) (initialState opts s1) of
             None \<Rightarrow> None
           | Some st \<Rightarrow> Some (Inr (resultOf hc opts st), engine st, calls st)))"

section \<open>\<open>formatPivotData\<close>\<close>

record 'n cell =
  qText :: string
  qNum :: 'n
  qState :: string

record header =
  name :: string
  type :: string
  index :: nat

record 'n field =
  "text" :: string
  number :: 'n
  state :: string

record 'n formattedRow =
  index :: nat
  data :: "string \<rightharpoonup> 'n field"

record summary =
  totalRows :: nat
  totalColumns :: nat
  dimensions :: nat
  measures :: nat

record 'n formattedData =
  headers :: "header list"
  rows :: "'n formattedRow list"
  metadata :: metadata
  summary :: summary

text \<open>
  The two \<open>forEach\<close> loops that fill \<open>headers\<close>: each descriptor is pushed with the
  length of \<open>headers\<close> at that moment as its index.
\<close>

definition pushHeaders :: "string \<Rightarrow> header list \<Rightarrow> fieldInfo list \<Rightarrow> header list" where
  "pushHeaders kind hs infos =
     foldl (\<lambda>acc info. acc @ [\<lparr>name = qFallbackTitle info, type = kind,
                                   header.index = length acc\<rparr>]) hs infos"

text \<open>
  One row, as the map of the own properties of \<open>formattedRow\<close>: each cell whose position
  has a header is stored under that header's name, and a later cell under the same name
  replaces the earlier one. An assignment to the name \<open>__proto__\<close> sets the prototype of
  the object and adds no property.
\<close>

definition formatRow :: "header list \<Rightarrow> 'n cell list \<Rightarrow> (string \<rightharpoonup> 'n field)" where
  "formatRow hs row =
     foldl (\<lambda>formattedRow (cellIndex, c).
              if cellIndex < length hs \<and> name (hs ! cellIndex) \<noteq> ''__proto__''
              then formattedRow(name (hs ! cellIndex) \<mapsto>
                     \<lparr>text = qText c, number = qNum c, state = qState c\<rparr>)
              else formattedRow)
           Map.empty (zip [0 ..< length row] row)"

definition formatPivotData :: "('n cell list) extractedData \<Rightarrow> 'n formattedData" where
  "formatPivotData extracted =
     (let md = extractedData.metadata extracted;
          hs = pushHeaders ''measure''
                 (pushHeaders ''dimension'' [] (metadata.dimensions md))
                 (metadata.measures md);
          formattedRows =
            map (\<lambda>(rowIndex, row). \<lparr>index = rowIndex, data = formatRow hs row\<rparr>)
                (zip [0 ..< length (extractedData.data extracted)]
                     (extractedData.data extracted))
      in \<lparr>headers = hs,
          rows = formattedRows,
          metadata = md,
          summary =
            \<lparr>totalRows = length formattedRows,
             totalColumns = length hs,
             dimensions = length (metadata.dimensions md),
             measures = length (metadata.measures md)\<rparr>\<rparr>)"

section \<open>Auxiliary notions for the properties\<close>

text \<open>The state a run of the loop body ends in, whichever way it ends.\<close>

fun after :: "'a control \<Rightarrow> 'a" where
  "after (Continue st) = st"
| "after (Break st) = st"

text \<open>The fetch calls issued by one run of the loop body started in \<open>st\<close>.\<close>

definition issued ::
  "nat \<Rightarrow> ('s, 'r) pivotObject \<Rightarrow> hyperCube \<Rightarrow> options \<Rightarrow> int \<Rightarrow> ('s, 'r) extraction
     \<Rightarrow> (fetchMethod \<times> window) list" where
  "issued lim obj hc opts totalCols st =
     drop (length (calls st)) (calls (after (pageStep lim obj hc opts totalCols st)))"

text \<open>The window of the first fetch of an extraction.\<close>

definition firstWindow :: "hyperCube \<Rightarrow> options \<Rightarrow> window" where
  "firstWindow hc opts =
     \<lparr>qTop = startRow opts, qLeft = startCol opts,
      qHeight = min (pageSize opts) (qcy (qSize hc) - startRow opts),
      qWidth = totalColsOf hc opts\<rparr>"

text \<open>The specification's \<open>ceil(totalRows / pageSize)\<close>, on integers.\<close>

definition ceilDiv :: "int \<Rightarrow> int \<Rightarrow> int" where
  "ceilDiv a b = - ((- a) div b)"

text \<open>
  The specification's row order invariant, for rows that carry their original row
  index: the rows are those numbered \<open>start\<close>, \<open>start + 1\<close>, ... in this order.
\<close>

definition gapFree :: "int \<Rightarrow> int list \<Rightarrow> bool" where
  "gapFree start rs = (rs = [start .. start + int (length rs) - 1])"

section \<open>Engines for concrete runs\<close>

text \<open>
  A remote object whose state is the number of fetch calls it has answered; \<open>answer\<close>
  gives the answer to each call from that number, the method and the window.
\<close>

definition stub ::
  "layout \<Rightarrow> (nat \<Rightarrow> fetchMethod \<Rightarrow> window \<Rightarrow> 'r response) \<Rightarrow> (nat, 'r) pivotObject" where
  "stub lay answer =
     \<lparr>getLayout = (\<lambda>s. (Inr lay, s)),
      getHyperCubePivotData = (\<lambda>w s. (answer s GetHyperCubePivotData w, Suc s)),
      getHyperCubeData = (\<lambda>w s. (answer s GetHyperCubeData w, Suc s))\<rparr>"

text \<open>A cube of \<open>rowCount\<close> rows and one dimension column, in the given layout mode.\<close>

definition cubeLayout :: "string \<Rightarrow> int \<Rightarrow> layout" where
  "cubeLayout mode rowCount =
     \<lparr>qHyperCube =
        \<lparr>qDimensionInfo = [\<lparr>qFallbackTitle = ''Region''\<rparr>],
         qMeasureInfo = [],
         qSize = \<lparr>qcx = 1, qcy = rowCount\<rparr>,
         qMode = mode\<rparr>\<rparr>"

text \<open>A page holding the rows of the window, each row being its original row index.\<close>

definition windowRows :: "window \<Rightarrow> int list" where
  "windowRows w = [qTop w .. qTop w + qHeight w - 1]"

definition onePage :: "'r list \<Rightarrow> 'r response" where
  "onePage m = Resolves (Some [\<lparr>qMatrix = Some m\<rparr>])"

text \<open>Every fetch returns exactly the rows of its window.\<close>

definition exactAnswer :: "nat \<Rightarrow> fetchMethod \<Rightarrow> window \<Rightarrow> int response" where
  "exactAnswer k m w = onePage (windowRows w)"

text \<open>Every fetch returns the first rows of its window, three at most.\<close>

definition truncatedAnswer :: "nat \<Rightarrow> fetchMethod \<Rightarrow> window \<Rightarrow> int response" where
  "truncatedAnswer k m w = onePage (take 3 (windowRows w))"

text \<open>Every fetch returns a page whose matrix is the empty array.\<close>

definition emptyMatrixAnswer :: "nat \<Rightarrow> fetchMethod \<Rightarrow> window \<Rightarrow> int response" where
  "emptyMatrixAnswer k m w = onePage []"

definition abortedFault :: fault where
  "abortedFault =
     \<lparr>code = StrCode ''LOCERR_GENERIC_ABORTED'', parameter = None,
      message = ''Request aborted''\<rparr>"

definition tooLargeFault :: fault where
  "tooLargeFault =
     \<lparr>code = NumCode 6001, parameter = Some ''Page(s) too large'',
      message = ''Result too large''\<rparr>"

definition modeFault :: fault where
  "modeFault =
     \<lparr>code = NumCode 6002, parameter = Some ''Not in pivot mode'',
      message = ''Not in pivot mode''\<rparr>"

definition fatalFault :: fault where
  "fatalFault =
     \<lparr>code = NumCode 2, parameter = Some ''Invalid handle'',
      message = ''Object not found''\<rparr>"

text \<open>Every fetch is rejected as aborted.\<close>

definition abortedAnswer :: "nat \<Rightarrow> fetchMethod \<Rightarrow> window \<Rightarrow> int response" where
  "abortedAnswer k m w = Throws abortedFault"

text \<open>Every fetch is rejected with a mode mismatch.\<close>

definition mismatchAnswer :: "nat \<Rightarrow> fetchMethod \<Rightarrow> window \<Rightarrow> int response" where
  "mismatchAnswer k m w = Throws modeFault"

text \<open>The pivot call is rejected with a mode mismatch; the straight call is exact.\<close>

definition pivotMismatchAnswer :: "nat \<Rightarrow> fetchMethod \<Rightarrow> window \<Rightarrow> int response" where
  "pivotMismatchAnswer k m w =
     (case m of
        GetHyperCubePivotData \<Rightarrow> Throws modeFault
      | GetHyperCubeData \<Rightarrow> onePage (windowRows w))"

text \<open>The first fetch is rejected as too large; every later fetch is exact.\<close>

definition tooLargeOnceAnswer :: "nat \<Rightarrow> fetchMethod \<Rightarrow> window \<Rightarrow> int response" where
  "tooLargeOnceAnswer k m w = (if k = 0 then Throws tooLargeFault else onePage (windowRows w))"

text \<open>
  A scripted engine: the \<open>k\<close>-th fetch gets the \<open>k\<close>-th answer of the script, whatever
  is asked; once the script is used up every fetch resolves to null.
\<close>

definition scriptedAnswer ::
  "'r response list \<Rightarrow> nat \<Rightarrow> fetchMethod \<Rightarrow> window \<Rightarrow> 'r response" where
  "scriptedAnswer script k m w = (if k < length script then script ! k else Resolves None)"

text \<open>Every fetch is rejected as too large.\<close>

definition tooLargeAnswer :: "nat \<Rightarrow> fetchMethod \<Rightarrow> window \<Rightarrow> int response" where
  "tooLargeAnswer k m w = Throws tooLargeFault"

text \<open>
  The pivot call is rejected with a mode mismatch and the straight call as too large.
\<close>

definition fallbackTooLargeAnswer :: "nat \<Rightarrow> fetchMethod \<Rightarrow> window \<Rightarrow> int response" where
  "fallbackTooLargeAnswer k m w =
     (case m of
        GetHyperCubePivotData \<Rightarrow> Throws modeFault
      | GetHyperCubeData \<Rightarrow> Throws tooLargeFault)"

section \<open>Basic facts about the loop body\<close>

lemma invoke_frame:
  assumes "invoke obj m w st = (r, st1)"
  shows "allData st1 = allData st" and "currentRow st1 = currentRow st"
    and "pagesProcessed st1 = pagesProcessed st" and "calls st1 = calls st @ [(m, w)]"
  using assms by (auto simp: invoke_def split: prod.splits)

lemma invoke_fetch:
  "fetch obj m w (engine st) = (r, s') \<Longrightarrow>
     invoke obj m w st = (r, st\<lparr>engine := s', calls := calls st @ [(m, w)]\<rparr>)"
  by (simp add: invoke_def)

lemma pageWindow_frame:
  "currentRow st1 = currentRow st \<Longrightarrow> pageWindow opts tc st1 h = pageWindow opts tc st h"
  by (simp add: pageWindow_def)

lemma invoke_cases:
  obtains r st1 where "invoke obj m w st = (r, st1)"
  by (cases "invoke obj m w st") blast

lemma invoke_throws:
  assumes "\<forall>w s. \<exists>e s'. getHyperCubePivotData obj w s = (Throws e, s') \<and> P e"
    and "\<forall>w s. \<exists>e s'. getHyperCubeData obj w s = (Throws e, s') \<and> P e"
  obtains e st1 where "invoke obj m w st = (Throws e, st1)" and "P e"
proof (cases m)
  case GetHyperCubePivotData
  from assms(1) obtain e s' where "getHyperCubePivotData obj w (engine st) = (Throws e, s')" "P e"
    by blast
  with GetHyperCubePivotData that show ?thesis by (simp add: invoke_def fetch_def)
next
  case GetHyperCubeData
  from assms(2) obtain e s' where "getHyperCubeData obj w (engine st) = (Throws e, s')" "P e"
    by blast
  with GetHyperCubeData that show ?thesis by (simp add: invoke_def fetch_def)
qed

lemma fetch_stub: "fetch (stub lay answer) m w s = (answer s m w, Suc s)"
  by (cases m) (simp_all add: fetch_def stub_def)

lemma invoke_stub:
  "invoke (stub lay answer) m w st =
     (answer (engine st) m w, st\<lparr>engine := Suc (engine st), calls := calls st @ [(m, w)]\<rparr>)"
  by (simp add: invoke_def fetch_stub)

lemma rangeError_unclassified:
  "\<not> pageTooLarge rangeError" "\<not> notInPivotMode rangeError" "\<not> requestAborted rangeError"
  by (simp_all add: rangeError_def pageTooLarge_def notInPivotMode_def requestAborted_def)

text \<open>The ways through the loop body, by the answers of the fetches.\<close>

lemma step_page:
  assumes "invoke obj (primaryMethod hc) (pageWindow opts tc st (rowsToFetch hc opts st)) st =
             (Resolves pd, st1)"
    and "matrixOf pd = Some m" and "length m \<le> lim"
  shows "pageStep lim obj hc opts tc st =
           Continue (st1\<lparr>allData := allData st1 @ m,
                          currentRow := currentRow st1 + rowsToFetch hc opts st,
                          pagesProcessed := pagesProcessed st1 + 1\<rparr>)"
  using assms by (simp add: pageStep_def tryPage_def Let_def)

lemma step_no_matrix:
  assumes "invoke obj (primaryMethod hc) (pageWindow opts tc st (rowsToFetch hc opts st)) st =
             (Resolves pd, st1)"
    and "matrixOf pd = None"
  shows "pageStep lim obj hc opts tc st = Break st1"
  using assms by (simp add: pageStep_def tryPage_def Let_def)

lemma step_fault:
  assumes "invoke obj (primaryMethod hc) (pageWindow opts tc st (rowsToFetch hc opts st)) st =
             (Throws e, st1)"
  shows "pageStep lim obj hc opts tc st =
           onPageError lim obj opts tc (rowsToFetch hc opts st) e st1"
  using assms by (simp add: pageStep_def tryPage_def Let_def)

lemma onPageError_fatal:
  "\<not> pageTooLarge e \<Longrightarrow> \<not> notInPivotMode e \<Longrightarrow> \<not> requestAborted e \<Longrightarrow>
     onPageError lim obj opts tc n e st1 = Break st1"
  by (simp add: onPageError_def)

lemma onPageError_aborted:
  "\<not> pageTooLarge e \<Longrightarrow> \<not> notInPivotMode e \<Longrightarrow> requestAborted e \<Longrightarrow>
     onPageError lim obj opts tc n e st1 = Continue st1"
  by (simp add: onPageError_def)

lemma onPageError_capacity:
  assumes "pageTooLarge e"
    and "invoke obj GetHyperCubeData (pageWindow opts tc st1 (max 10 (n div 2))) st1 = (r2, st2)"
  shows "onPageError lim obj opts tc n e st1 =
           (case r2 of
              Throws retryError \<Rightarrow> Break st2
            | Resolves pd \<Rightarrow>
                (case matrixOf pd of
                   None \<Rightarrow> Continue st2
                 | Some m \<Rightarrow>
                     if length m \<le> lim then
                       Continue (st2\<lparr>allData := allData st2 @ m,
                                      currentRow := currentRow st2 + int (length m),
                                      pagesProcessed := pagesProcessed st2 + 1\<rparr>)
                     else Break st2))"
  using assms by (simp add: onPageError_def Let_def split: response.splits)

lemma onPageError_mode:
  assumes "\<not> pageTooLarge e" and "notInPivotMode e"
    and "invoke obj GetHyperCubeData (pageWindow opts tc st1 n) st1 = (r2, st2)"
  shows "onPageError lim obj opts tc n e st1 =
           (case r2 of
              Throws straightError \<Rightarrow> Break st2
            | Resolves pd \<Rightarrow>
                (case matrixOf pd of
                   None \<Rightarrow> Continue st2
                 | Some m \<Rightarrow>
                     if length m \<le> lim then
                       Continue (st2\<lparr>allData := allData st2 @ m,
                                      currentRow := currentRow st2 + n,
                                      pagesProcessed := pagesProcessed st2 + 1\<rparr>)
                     else Break st2))"
  using assms by (simp add: onPageError_def Let_def split: response.splits)

lemma loop_continue:
  assumes "currentRow st < qcy (qSize hc)" and "pagesProcessed st < maxPages opts"
    and "pageStep lim obj hc opts tc st = Continue st'"
  shows "extractLoop lim obj hc opts tc st = extractLoop lim obj hc opts tc st'"
  using assms by (subst extractLoop.simps) simp

lemma loop_break:
  assumes "currentRow st < qcy (qSize hc)" and "pagesProcessed st < maxPages opts"
    and "pageStep lim obj hc opts tc st = Break st'"
  shows "extractLoop lim obj hc opts tc st = Some st'"
  using assms by (subst extractLoop.simps) simp

lemma loop_exit:
  assumes "\<not> (currentRow st < qcy (qSize hc) \<and> pagesProcessed st < maxPages opts)"
  shows "extractLoop lim obj hc opts tc st = Some st"
  using assms by (subst extractLoop.simps) auto

lemma extractPivotData_loop:
  assumes "getLayout obj s = (Inr lay, s1)"
    and "extractLoop lim obj (qHyperCube lay) opts (totalColsOf (qHyperCube lay) opts)
           (initialState opts s1) = Some st"
  shows "extractPivotData lim obj opts s =
           Some (Inr (resultOf (qHyperCube lay) opts st), engine st, calls st)"
  using assms by (simp add: extractPivotData_def Let_def)

lemma firstWindow_initial:
  "pageWindow opts (totalColsOf hc opts) (initialState opts s)
     (rowsToFetch hc opts (initialState opts s)) = firstWindow hc opts"
  by (simp add: pageWindow_def rowsToFetch_def initialState_def firstWindow_def)

section \<open>A loop that never returns\<close>

lemma aborted_step:
  assumes "\<forall>w s. \<exists>e s'. getHyperCubePivotData obj w s = (Throws e, s') \<and>
             (\<not> pageTooLarge e \<and> \<not> notInPivotMode e \<and> requestAborted e)"
    and "\<forall>w s. \<exists>e s'. getHyperCubeData obj w s = (Throws e, s') \<and>
             (\<not> pageTooLarge e \<and> \<not> notInPivotMode e \<and> requestAborted e)"
  shows "\<exists>st1. pageStep lim obj hc opts tc st = Continue st1 \<and> currentRow st1 = currentRow st
            \<and> pagesProcessed st1 = pagesProcessed st"
proof -
  obtain e st1 where inv: "invoke obj (primaryMethod hc)
      (pageWindow opts tc st (rowsToFetch hc opts st)) st = (Throws e, st1)"
    and e: "\<not> pageTooLarge e \<and> \<not> notInPivotMode e \<and> requestAborted e"
    using invoke_throws [OF assms] by blast
  have "pageStep lim obj hc opts tc st = Continue st1"
    using e by (simp add: step_fault [OF inv] onPageError_aborted)
  then show ?thesis using invoke_frame(2,3) [OF inv] by simp
qed

lemma aborted_loop_never_returns:
  assumes P: "\<forall>w s. \<exists>e s'. getHyperCubePivotData obj w s = (Throws e, s') \<and>
             (\<not> pageTooLarge e \<and> \<not> notInPivotMode e \<and> requestAborted e)"
    and S: "\<forall>w s. \<exists>e s'. getHyperCubeData obj w s = (Throws e, s') \<and>
             (\<not> pageTooLarge e \<and> \<not> notInPivotMode e \<and> requestAborted e)"
    and row: "currentRow st < qcy (qSize hc)" and page: "pagesProcessed st < maxPages opts"
  shows "extractLoop lim obj hc opts tc st = None"
proof (rule ccontr)
  assume "extractLoop lim obj hc opts tc st \<noteq> None"
  then obtain y where ret: "extractLoop lim obj hc opts tc st = Some y" by blast
  define Q where "Q = (\<lambda>(lim' :: nat) obj' (hc' :: hyperCube) (opts' :: options) (tc' :: int)
      (st' :: ('a, 'b) extraction) (y' :: ('a, 'b) extraction).
      obj' = obj \<longrightarrow> \<not> (currentRow st' < qcy (qSize hc') \<and> pagesProcessed st' < maxPages opts'))"
  have "Q lim obj hc opts tc st y"
  proof (rule extractLoop.raw_induct [where P = Q, OF _ ret])
    fix loop lim' obj' hc' opts' tc' and st' y' :: "('a, 'b) extraction"
    assume IH: "\<And>lim obj hc opts tc st y.
        loop lim obj hc opts tc st = Some y \<Longrightarrow> Q lim obj hc opts tc st y"
      and body: "(if currentRow st' < qcy (qSize hc') \<and> pagesProcessed st' < maxPages opts'
         then case pageStep lim' obj' hc' opts' tc' st' of
                Continue st'' \<Rightarrow> loop lim' obj' hc' opts' tc' st''
              | Break st'' \<Rightarrow> Some st''
         else Some st') = Some y'"
    show "Q lim' obj' hc' opts' tc' st' y'"
      unfolding Q_def
    proof (intro impI notI)
      assume eq: "obj' = obj"
        and cond: "currentRow st' < qcy (qSize hc') \<and> pagesProcessed st' < maxPages opts'"
      obtain st1 where step: "pageStep lim' obj hc' opts' tc' st' = Continue st1"
        and fr: "currentRow st1 = currentRow st'" "pagesProcessed st1 = pagesProcessed st'"
        using aborted_step [OF P S] by blast
      from body cond step eq have "loop lim' obj hc' opts' tc' st1 = Some y'" by simp
      from IH [OF this] cond fr show False by (simp add: Q_def)
    qed
  qed
  with row page show False by (simp add: Q_def)
qed

section \<open>Runs without faults\<close>

lemma ceilDiv_zero: "ceilDiv 0 b = 0"
  by (simp add: ceilDiv_def)

lemma ceilDiv_minus: "0 < b \<Longrightarrow> ceilDiv (a - b) b = ceilDiv a b - 1"
proof -
  assume "0 < b"
  then have "(- a + b) div b = (- a) div b + 1"
    using div_add_self2 [of b "- a"] by simp
  then show ?thesis by (simp add: ceilDiv_def)
qed

lemma ceilDiv_pos: "0 < b \<Longrightarrow> 0 < a \<Longrightarrow> 1 \<le> ceilDiv a b"
proof -
  assume "0 < b" "0 < a"
  then have "(- a) div b < 0" by (simp add: div_neg_pos_less0)
  then show ?thesis by (simp add: ceilDiv_def)
qed

lemma ceilDiv_last: "0 < a \<Longrightarrow> a \<le> b \<Longrightarrow> ceilDiv a b = 1"
proof -
  assume a: "0 < a" "a \<le> b"
  then have "(b - a) div b = 0" by (intro div_pos_pos_trivial) simp_all
  then have "ceilDiv (a - b) b = 0" by (simp add: ceilDiv_def)
  moreover have "ceilDiv (a - b) b = ceilDiv a b - 1"
    using a by (intro ceilDiv_minus) simp
  ultimately show ?thesis by simp
qed

lemma invoke_exact:
  assumes P: "\<forall>w s. \<exists>m ps s'. getHyperCubePivotData obj w s =
                (Resolves (Some (\<lparr>qMatrix = Some m\<rparr> # ps)), s') \<and> length m = nat (qHeight w)"
    and S: "\<forall>w s. \<exists>m ps s'. getHyperCubeData obj w s =
                (Resolves (Some (\<lparr>qMatrix = Some m\<rparr> # ps)), s') \<and> length m = nat (qHeight w)"
  obtains pd m st1 where "invoke obj k w st = (Resolves pd, st1)" and "matrixOf pd = Some m"
    and "length m = nat (qHeight w)"
proof (cases k)
  case GetHyperCubePivotData
  from P obtain m ps s' where "getHyperCubePivotData obj w (engine st) =
      (Resolves (Some (\<lparr>qMatrix = Some m\<rparr> # ps)), s')" "length m = nat (qHeight w)"
    by blast
  with GetHyperCubePivotData that [of "Some (\<lparr>qMatrix = Some m\<rparr> # ps)" _ m] show ?thesis
    by (simp add: invoke_def fetch_def matrixOf_def)
next
  case GetHyperCubeData
  from S obtain m ps s' where "getHyperCubeData obj w (engine st) =
      (Resolves (Some (\<lparr>qMatrix = Some m\<rparr> # ps)), s')" "length m = nat (qHeight w)"
    by blast
  with GetHyperCubeData that [of "Some (\<lparr>qMatrix = Some m\<rparr> # ps)" _ m] show ?thesis
    by (simp add: invoke_def fetch_def matrixOf_def)
qed

lemma loop_exact:
  assumes P: "\<forall>w s. \<exists>m ps s'. getHyperCubePivotData obj w s =
                (Resolves (Some (\<lparr>qMatrix = Some m\<rparr> # ps)), s') \<and> length m = nat (qHeight w)"
    and S: "\<forall>w s. \<exists>m ps s'. getHyperCubeData obj w s =
                (Resolves (Some (\<lparr>qMatrix = Some m\<rparr> # ps)), s') \<and> length m = nat (qHeight w)"
    and size: "0 < pageSize opts" and fits: "pageSize opts \<le> int lim"
  shows "\<lbrakk>currentRow st \<le> qcy (qSize hc);
          pagesProcessed st + ceilDiv (qcy (qSize hc) - currentRow st) (pageSize opts)
            \<le> maxPages opts\<rbrakk>
       \<Longrightarrow> \<exists>st'. extractLoop lim obj hc opts tc st = Some st'
             \<and> length (allData st') = length (allData st) + nat (qcy (qSize hc) - currentRow st)
             \<and> pagesProcessed st' =
                 pagesProcessed st + ceilDiv (qcy (qSize hc) - currentRow st) (pageSize opts)"
proof (induction "nat (qcy (qSize hc) - currentRow st)" arbitrary: st rule: less_induct)
  case less
  let ?total = "qcy (qSize hc)"
  show ?case
  proof (cases "currentRow st < ?total")
    case False
    with less.prems(1) have fin: "currentRow st = ?total" by simp
    then have "extractLoop lim obj hc opts tc st = Some st"
      by (intro loop_exit) simp
    with fin show ?thesis by (simp add: ceilDiv_zero)
  next
    case True
    let ?n = "rowsToFetch hc opts st"
    let ?w = "pageWindow opts tc st ?n"
    have n: "0 < ?n" "?n \<le> ?total - currentRow st" "?n \<le> pageSize opts"
      using True size by (simp_all add: rowsToFetch_def)
    have "1 \<le> ceilDiv (?total - currentRow st) (pageSize opts)"
      using True size by (intro ceilDiv_pos) simp_all
    with less.prems(2) have page: "pagesProcessed st < maxPages opts" by linarith
    obtain pd m st1 where primary: "invoke obj (primaryMethod hc) ?w st = (Resolves pd, st1)"
      and m: "matrixOf pd = Some m" "length m = nat (qHeight ?w)"
      using invoke_exact [OF P S] by blast
    let ?st2 = "st1\<lparr>allData := allData st1 @ m, currentRow := currentRow st1 + ?n,
                     pagesProcessed := pagesProcessed st1 + 1\<rparr>"
    note fr = invoke_frame(1,2,3) [OF primary]
    have len: "length m = nat ?n"
      using m(2) by (simp add: pageWindow_def)
    have "length m \<le> lim"
      using len n(3) fits by linarith
    then have step: "pageStep lim obj hc opts tc st = Continue ?st2"
      using primary m(1) by (rule step_page [rotated 2])
    have unfold: "extractLoop lim obj hc opts tc st = extractLoop lim obj hc opts tc ?st2"
      using True page step by (rule loop_continue)
    have cd: "ceilDiv (?total - currentRow st - ?n) (pageSize opts) =
        ceilDiv (?total - currentRow st) (pageSize opts) - 1"
    proof (cases "pageSize opts \<le> ?total - currentRow st")
      case True
      then have "?n = pageSize opts" by (simp add: rowsToFetch_def)
      then show ?thesis using ceilDiv_minus [OF size] by simp
    next
      case False
      then have eq: "?n = ?total - currentRow st" by (simp add: rowsToFetch_def)
      have "ceilDiv (?total - currentRow st) (pageSize opts) = 1"
        using False \<open>currentRow st < ?total\<close> by (intro ceilDiv_last) simp_all
      then show ?thesis using eq by (simp add: ceilDiv_zero)
    qed
    have "\<exists>st'. extractLoop lim obj hc opts tc ?st2 = Some st'
             \<and> length (allData st') = length (allData ?st2) + nat (?total - currentRow ?st2)
             \<and> pagesProcessed st' =
                 pagesProcessed ?st2 + ceilDiv (?total - currentRow ?st2) (pageSize opts)"
    proof (rule less.hyps)
      show "nat (?total - currentRow ?st2) < nat (?total - currentRow st)"
        using n fr by simp
      show "currentRow ?st2 \<le> ?total" using n fr by simp
      show "pagesProcessed ?st2 + ceilDiv (?total - currentRow ?st2) (pageSize opts) \<le> maxPages opts"
        using less.prems(2) cd fr by (simp add: algebra_simps)
    qed
    then obtain st' where st': "extractLoop lim obj hc opts tc ?st2 = Some st'"
      "length (allData st') = length (allData ?st2) + nat (?total - currentRow ?st2)"
      "pagesProcessed st' = pagesProcessed ?st2 + ceilDiv (?total - currentRow ?st2) (pageSize opts)"
      by blast
    have "length (allData st') = length (allData st) + nat (?total - currentRow st)"
      using st'(2) fr len n by simp
    moreover have "pagesProcessed st' =
        pagesProcessed st + ceilDiv (?total - currentRow st) (pageSize opts)"
      using st'(3) fr cd by (simp add: algebra_simps)
    ultimately show ?thesis using unfold st'(1) by simp
  qed
qed

section \<open>Pages followed by a fatal fault\<close>


section \<open>Facts about the formatter\<close>

lemma length_pushHeaders: "length (pushHeaders kind hs infos) = length hs + length infos"
  unfolding pushHeaders_def
  by (induction infos arbitrary: hs rule: rev_induct) simp_all

lemma names_pushHeaders:
  "map name (pushHeaders kind hs infos) = map name hs @ map qFallbackTitle infos"
  unfolding pushHeaders_def
  by (induction infos arbitrary: hs rule: rev_induct) simp_all

lemma types_pushHeaders:
  "map type (pushHeaders kind hs infos) = map type hs @ replicate (length infos) kind"
  unfolding pushHeaders_def
  by (induction infos arbitrary: hs rule: rev_induct) (simp_all add: replicate_append_same)

lemma indices_pushHeaders:
  "map header.index (pushHeaders kind hs infos) =
     map header.index hs @ [length hs ..< length hs + length infos]"
  unfolding pushHeaders_def
proof (induction infos arbitrary: hs rule: rev_induct)
  case Nil
  show ?case by simp
next
  case (snoc x xs)
  have "length (foldl (\<lambda>acc info. acc @ [\<lparr>name = qFallbackTitle info, type = kind,
                                   header.index = length acc\<rparr>]) hs xs) = length hs + length xs"
    using length_pushHeaders [of kind hs xs] by (simp add: pushHeaders_def)
  with snoc show ?case by simp
qed

lemma headers_formatPivotData:
  "headers (formatPivotData r) =
     pushHeaders ''measure''
       (pushHeaders ''dimension'' [] (metadata.dimensions (extractedData.metadata r)))
       (metadata.measures (extractedData.metadata r))"
  unfolding formatPivotData_def Let_def by simp

lemma totalColumns_formatPivotData:
  "summary.totalColumns (summary (formatPivotData r)) = length (headers (formatPivotData r))"
  unfolding formatPivotData_def Let_def by simp

section \<open>Evaluating concrete runs\<close>

text \<open>
  The concrete runs below are on an engine that accepts 125000 arguments in one call;
  their pages have a few rows.
\<close>

lemmas run_defs = extractPivotData_def stub_def cubeLayout_def initialState_def
  defaultOptions_def totalColsOf_def resultOf_def

lemmas step_defs = pageStep_def tryPage_def onPageError_def invoke_def fetch_def rowsToFetch_def
  primaryMethod_def pageWindow_def matrixOf_def pageTooLarge_def notInPivotMode_def
  requestAborted_def onePage_def windowRows_def

section \<open>The properties\<close>

subsection \<open>C1: the cursor after a successful page\<close>

text \<open>
  C1 says that after every successful page fetch the row cursor advances by the number
  of rows the server returned, so that a truncated page never makes rows be skipped.
  The capacity retry does so (\<open>currentRow += matrixData.length\<close>), but the first fetch
  of a page and the straight-table fallback add \<open>rowsToFetch\<close>, the height asked for.
  On a cube of 10 rows read in pages of 5 from an engine that returns at most 3 rows
  per call, the first page brings rows 0, 1, 2 and the second window starts at row 5:
  rows 3 and 4 are never asked for, and the run ends with 6 rows after 2 pages.
\<close>

theorem truncated_page_advances_by_requested_height:
  "extractPivotData 125000 (stub (cubeLayout ''EQ_DATA_MODE_PIVOT'' 10) truncatedAnswer)
     (defaultOptions\<lparr>pageSize := 5\<rparr>) 0 =
   Some (Inr \<lparr>extractedData.data = [0, 1, 2, 5, 6, 7],
               metadata = \<lparr>metadata.dimensions = [\<lparr>qFallbackTitle = ''Region''\<rparr>],
                 measures = [], totalRows = 10, totalColumns = 1, extractedRows = 6,
                 pageSize = 5, pagesProcessed = 2\<rparr>\<rparr>,
         2,
         [(GetHyperCubePivotData, \<lparr>qTop = 0, qLeft = 0, qHeight = 5, qWidth = 1\<rparr>),
          (GetHyperCubePivotData, \<lparr>qTop = 5, qLeft = 0, qHeight = 5, qWidth = 1\<rparr>)])"
  by (simp add: run_defs extractLoop.simps step_defs truncatedAnswer_def Let_def upto.simps)

subsection \<open>C2: the order of the assembled rows\<close>

text \<open>
  C2 says that the assembled rows are in increasing original-row order without
  duplicates and without gaps, for every extraction. Because the cursor advances by the
  height asked for (see C1), a truncated page leaves a gap: on a straight-table cube of
  8 rows read in pages of 4 from an engine that returns at most 3 rows per call, the
  assembled rows are 0, 1, 2, 4, 5, 6, which is not the gap-free sequence from row 0.
\<close>

theorem truncated_pages_leave_gaps:
  "extractPivotData 125000 (stub (cubeLayout ''EQ_DATA_MODE_STRAIGHT'' 8) truncatedAnswer)
     (defaultOptions\<lparr>pageSize := 4\<rparr>) 0 =
   Some (Inr \<lparr>extractedData.data = [0, 1, 2, 4, 5, 6],
               metadata = \<lparr>metadata.dimensions = [\<lparr>qFallbackTitle = ''Region''\<rparr>],
                 measures = [], totalRows = 8, totalColumns = 1, extractedRows = 6,
                 pageSize = 4, pagesProcessed = 2\<rparr>\<rparr>,
         2,
         [(GetHyperCubeData, \<lparr>qTop = 0, qLeft = 0, qHeight = 4, qWidth = 1\<rparr>),
          (GetHyperCubeData, \<lparr>qTop = 4, qLeft = 0, qHeight = 4, qWidth = 1\<rparr>)])
   \<and> \<not> gapFree 0 [0, 1, 2, 4, 5, 6]"
  by (simp add: run_defs extractLoop.simps step_defs truncatedAnswer_def Let_def upto.simps
      gapFree_def)

subsection \<open>C3: completeness of a run without faults\<close>

text \<open>
  C3, as amended. When \<open>pageSize\<close> is positive and no more than the number of arguments
  the engine accepts in one call, \<open>startRow\<close> is 0, every fetch succeeds and returns
  exactly as many rows as the window's height, and \<open>ceil(totalRows / pageSize)\<close> is at
  most \<open>maxPages\<close>, then \<open>extractPivotData\<close> returns an object whose \<open>extractedRows\<close>
  equals \<open>totalRows\<close> and whose \<open>pagesProcessed\<close> equals \<open>ceil(totalRows / pageSize)\<close>.
\<close>

theorem extract_complete:
  assumes lay: "getLayout obj s = (Inr lay, s1)"
    and P: "\<forall>w s. \<exists>m ps s'. getHyperCubePivotData obj w s =
                (Resolves (Some (\<lparr>qMatrix = Some m\<rparr> # ps)), s') \<and> length m = nat (qHeight w)"
    and S: "\<forall>w s. \<exists>m ps s'. getHyperCubeData obj w s =
                (Resolves (Some (\<lparr>qMatrix = Some m\<rparr> # ps)), s') \<and> length m = nat (qHeight w)"
    and size: "0 < pageSize opts"
    and fits: "pageSize opts \<le> int lim"
    and start: "startRow opts = 0"
    and rows: "0 \<le> qcy (qSize (qHyperCube lay))"
    and cap: "ceilDiv (qcy (qSize (qHyperCube lay))) (pageSize opts) \<le> maxPages opts"
  shows "\<exists>res s' cs. extractPivotData lim obj opts s = Some (Inr res, s', cs)
           \<and> int (extractedRows (extractedData.metadata res)) =
               metadata.totalRows (extractedData.metadata res)
           \<and> metadata.totalRows (extractedData.metadata res) = qcy (qSize (qHyperCube lay))
           \<and> metadata.pagesProcessed (extractedData.metadata res) =
               ceilDiv (qcy (qSize (qHyperCube lay))) (pageSize opts)"
proof -
  let ?hc = "qHyperCube lay"
  let ?st = "initialState opts s1 :: ('a, 'b) extraction"
  have "\<exists>st'. extractLoop lim obj ?hc opts (totalColsOf ?hc opts) ?st = Some st'
             \<and> length (allData st') = length (allData ?st) + nat (qcy (qSize ?hc) - currentRow ?st)
             \<and> pagesProcessed st' =
                 pagesProcessed ?st + ceilDiv (qcy (qSize ?hc) - currentRow ?st) (pageSize opts)"
    using start rows cap by (intro loop_exact [OF P S size fits]) (simp_all add: initialState_def)
  then obtain st' where loop: "extractLoop lim obj ?hc opts (totalColsOf ?hc opts) ?st = Some st'"
    and len: "length (allData st') = nat (qcy (qSize ?hc))"
    and pages: "pagesProcessed st' = ceilDiv (qcy (qSize ?hc)) (pageSize opts)"
    using start by (auto simp: initialState_def)
  have "extractPivotData lim obj opts s = Some (Inr (resultOf ?hc opts st'), engine st', calls st')"
    using lay loop by (rule extractPivotData_loop)
  moreover have "int (extractedRows (extractedData.metadata (resultOf ?hc opts st'))) =
      metadata.totalRows (extractedData.metadata (resultOf ?hc opts st'))"
    using len rows by (simp add: resultOf_def)
  moreover have "metadata.totalRows (extractedData.metadata (resultOf ?hc opts st')) = qcy (qSize ?hc)"
    by (simp add: resultOf_def)
  moreover have "metadata.pagesProcessed (extractedData.metadata (resultOf ?hc opts st')) =
      ceilDiv (qcy (qSize ?hc)) (pageSize opts)"
    using pages by (simp add: resultOf_def)
  ultimately show ?thesis by blast
qed

text \<open>Witness for C3: a cube of 5 rows read in pages of 2 takes 3 pages.\<close>

theorem extract_complete_witness:
  "0 < pageSize (defaultOptions\<lparr>pageSize := 2\<rparr>)
   \<and> pageSize (defaultOptions\<lparr>pageSize := 2\<rparr>) \<le> int 125000
   \<and> ceilDiv 5 2 \<le> maxPages (defaultOptions\<lparr>pageSize := 2\<rparr>)
   \<and> (\<exists>res s' cs.
         extractPivotData 125000 (stub (cubeLayout ''EQ_DATA_MODE_PIVOT'' 5) exactAnswer)
           (defaultOptions\<lparr>pageSize := 2\<rparr>) 0 = Some (Inr res, s', cs)
         \<and> int (extractedRows (extractedData.metadata res)) = 5
         \<and> metadata.pagesProcessed (extractedData.metadata res) = 3)"
proof -
  let ?lay = "cubeLayout ''EQ_DATA_MODE_PIVOT'' 5"
  let ?obj = "stub ?lay exactAnswer"
  let ?opts = "defaultOptions\<lparr>pageSize := 2\<rparr>"
  have lay: "getLayout ?obj 0 = (Inr ?lay, 0)"
    by (simp add: stub_def)
  have P: "\<forall>w s. \<exists>m ps s'. getHyperCubePivotData ?obj w s =
                (Resolves (Some (\<lparr>qMatrix = Some m\<rparr> # ps)), s') \<and> length m = nat (qHeight w)"
    by (simp add: stub_def exactAnswer_def onePage_def windowRows_def)
  have S: "\<forall>w s. \<exists>m ps s'. getHyperCubeData ?obj w s =
                (Resolves (Some (\<lparr>qMatrix = Some m\<rparr> # ps)), s') \<and> length m = nat (qHeight w)"
    by (simp add: stub_def exactAnswer_def onePage_def windowRows_def)
  have size: "0 < pageSize ?opts" and start: "startRow ?opts = 0"
    by (simp_all add: defaultOptions_def)
  have fits: "pageSize ?opts \<le> int 125000"
    by (simp add: defaultOptions_def)
  have rows: "0 \<le> qcy (qSize (qHyperCube ?lay))"
    by (simp add: cubeLayout_def)
  have five: "qcy (qSize (qHyperCube ?lay)) = 5" and two: "pageSize ?opts = 2"
    by (simp_all add: cubeLayout_def)
  have three: "ceilDiv 5 2 = 3"
    by (simp add: ceilDiv_def)
  have cap: "ceilDiv (qcy (qSize (qHyperCube ?lay))) (pageSize ?opts) \<le> maxPages ?opts"
    unfolding five two three by (simp add: defaultOptions_def)
  have cap': "ceilDiv 5 2 \<le> maxPages ?opts"
    unfolding three by (simp add: defaultOptions_def)
  from extract_complete [OF lay P S size fits start rows cap] size fits cap'
  show ?thesis unfolding five two three by auto
qed

text \<open>
  C3 as stated, for any \<open>totalRows\<close> and \<open>pageSize\<close>, fails: the loop also stops after
  \<open>maxPages\<close> pages. With 3 rows, pages of 1 row and \<open>maxPages = 2\<close>, a run without
  faults returns 2 rows after 2 pages, while \<open>ceil(3 / 1) = 3\<close>.
\<close>

theorem maxPages_caps_fault_free_run:
  "extractPivotData 125000 (stub (cubeLayout ''EQ_DATA_MODE_PIVOT'' 3) exactAnswer)
     (defaultOptions\<lparr>pageSize := 1, maxPages := 2\<rparr>) 0 =
   Some (Inr \<lparr>extractedData.data = [0, 1],
               metadata = \<lparr>metadata.dimensions = [\<lparr>qFallbackTitle = ''Region''\<rparr>],
                 measures = [], totalRows = 3, totalColumns = 1, extractedRows = 2,
                 pageSize = 1, pagesProcessed = 2\<rparr>\<rparr>,
         2,
         [(GetHyperCubePivotData, \<lparr>qTop = 0, qLeft = 0, qHeight = 1, qWidth = 1\<rparr>),
          (GetHyperCubePivotData, \<lparr>qTop = 1, qLeft = 0, qHeight = 1, qWidth = 1\<rparr>)])
   \<and> ceilDiv 3 1 = 3"
  by (simp add: run_defs extractLoop.simps step_defs exactAnswer_def Let_def upto.simps
      ceilDiv_def)

subsection \<open>C4: the fallback after a mode mismatch\<close>

text \<open>
  C4, as amended. When the first fetch of an extraction is rejected with a mode mismatch
  (code 6002 or parameter \<open>Not in pivot mode\<close>) that is not also a capacity fault
  (neither code 6001 nor parameter \<open>Page(s) too large\<close>), and the fallback fetch is
  rejected too, as when every fetch reports such a mode mismatch, \<open>extractPivotData\<close>
  issues the first fetch, then exactly one fallback fetch of the same window through
  \<open>getHyperCubeData\<close>, and the second fault ends the extraction: it returns no rows,
  \<open>pagesProcessed = 0\<close>, and the remote state left by the fallback fetch. The fallback
  call is \<open>getHyperCubeData\<close> whatever the layout mode, so for a cube that is not in
  pivot mode it is the same call again.
\<close>

theorem mode_mismatch_one_fallback:
  assumes lay: "getLayout obj s = (Inr lay, s1)"
    and first: "fetch obj (primaryMethod (qHyperCube lay)) (firstWindow (qHyperCube lay) opts) s1 =
              (Throws e1, s2)"
    and mode: "notInPivotMode e1"
    and nocap: "\<not> pageTooLarge e1"
    and second: "fetch obj GetHyperCubeData (firstWindow (qHyperCube lay) opts) s2 =
              (Throws e2, s3)"
    and row: "startRow opts < qcy (qSize (qHyperCube lay))"
    and page: "0 < maxPages opts"
  shows "extractPivotData lim obj opts s =
           Some (Inr \<lparr>extractedData.data = [],
                       metadata =
                         \<lparr>metadata.dimensions = qDimensionInfo (qHyperCube lay),
                          measures = qMeasureInfo (qHyperCube lay),
                          totalRows = qcy (qSize (qHyperCube lay)),
                          totalColumns = totalColsOf (qHyperCube lay) opts,
                          extractedRows = 0,
                          pageSize = options.pageSize opts,
                          pagesProcessed = 0\<rparr>\<rparr>,
                 s3,
                 [(primaryMethod (qHyperCube lay), firstWindow (qHyperCube lay) opts),
                  (GetHyperCubeData, firstWindow (qHyperCube lay) opts)])"
proof -
  let ?hc = "qHyperCube lay" and ?tc = "totalColsOf (qHyperCube lay) opts"
  let ?st = "initialState opts s1 :: ('a, 'b) extraction"
  let ?w = "firstWindow ?hc opts"
  let ?st1 = "?st\<lparr>engine := s2, calls := calls ?st @ [(primaryMethod ?hc, ?w)]\<rparr>"
  let ?st2 = "?st1\<lparr>engine := s3, calls := calls ?st1 @ [(GetHyperCubeData, ?w)]\<rparr>"
  have win: "pageWindow opts ?tc ?st (rowsToFetch ?hc opts ?st) = ?w"
    by (rule firstWindow_initial)
  have win1: "pageWindow opts ?tc ?st1 (rowsToFetch ?hc opts ?st) = ?w"
    using win by (simp add: pageWindow_def)
  have primary: "invoke obj (primaryMethod ?hc)
      (pageWindow opts ?tc ?st (rowsToFetch ?hc opts ?st)) ?st = (Throws e1, ?st1)"
    unfolding win using first by (intro invoke_fetch) (simp add: initialState_def)
  have fallback: "invoke obj GetHyperCubeData
      (pageWindow opts ?tc ?st1 (rowsToFetch ?hc opts ?st)) ?st1 = (Throws e2, ?st2)"
    unfolding win1 using second by (intro invoke_fetch) simp
  have step: "pageStep lim obj ?hc opts ?tc ?st = Break ?st2"
    by (simp add: step_fault [OF primary] onPageError_mode [OF nocap mode fallback])
  have cond: "currentRow ?st < qcy (qSize ?hc)" "pagesProcessed ?st < maxPages opts"
    using row page by (simp_all add: initialState_def)
  have loop: "extractLoop lim obj ?hc opts ?tc ?st = Some ?st2"
    using cond step by (rule loop_break)
  have "extractPivotData lim obj opts s =
      Some (Inr (resultOf ?hc opts ?st2), engine ?st2, calls ?st2)"
    using lay loop by (rule extractPivotData_loop)
  then show ?thesis
    by (simp add: resultOf_def initialState_def)
qed

text \<open>
  Witness for C4: a cube of 5 rows whose every fetch reports a mode mismatch, in pivot
  mode and in straight-table mode.
\<close>

theorem mode_mismatch_one_fallback_witness:
  "notInPivotMode modeFault \<and> \<not> pageTooLarge modeFault
   \<and> extractPivotData 125000 (stub (cubeLayout ''EQ_DATA_MODE_PIVOT'' 5) mismatchAnswer)
       defaultOptions 0 =
     Some (Inr \<lparr>extractedData.data = [],
                 metadata = \<lparr>metadata.dimensions = [\<lparr>qFallbackTitle = ''Region''\<rparr>],
                   measures = [], totalRows = 5, totalColumns = 1, extractedRows = 0,
                   pageSize = 1000, pagesProcessed = 0\<rparr>\<rparr>,
           2,
           [(GetHyperCubePivotData, \<lparr>qTop = 0, qLeft = 0, qHeight = 5, qWidth = 1\<rparr>),
            (GetHyperCubeData, \<lparr>qTop = 0, qLeft = 0, qHeight = 5, qWidth = 1\<rparr>)])
   \<and> extractPivotData 125000 (stub (cubeLayout ''EQ_DATA_MODE_STRAIGHT'' 5) mismatchAnswer)
       defaultOptions 0 =
     Some (Inr \<lparr>extractedData.data = [],
                 metadata = \<lparr>metadata.dimensions = [\<lparr>qFallbackTitle = ''Region''\<rparr>],
                   measures = [], totalRows = 5, totalColumns = 1, extractedRows = 0,
                   pageSize = 1000, pagesProcessed = 0\<rparr>\<rparr>,
           2,
           [(GetHyperCubeData, \<lparr>qTop = 0, qLeft = 0, qHeight = 5, qWidth = 1\<rparr>),
            (GetHyperCubeData, \<lparr>qTop = 0, qLeft = 0, qHeight = 5, qWidth = 1\<rparr>)])"
proof -
  have lay: "getLayout (stub (cubeLayout mode 5) mismatchAnswer) 0 = (Inr (cubeLayout mode 5), 0)"
    for mode
    by (simp add: stub_def)
  have first: "fetch (stub (cubeLayout mode 5) mismatchAnswer)
      (primaryMethod (qHyperCube (cubeLayout mode 5)))
      (firstWindow (qHyperCube (cubeLayout mode 5)) defaultOptions) 0 = (Throws modeFault, 1)"
    for mode
    by (simp add: fetch_stub mismatchAnswer_def)
  have mode: "notInPivotMode modeFault" and nocap: "\<not> pageTooLarge modeFault"
    by (simp_all add: notInPivotMode_def pageTooLarge_def modeFault_def)
  have second: "fetch (stub (cubeLayout mode 5) mismatchAnswer) GetHyperCubeData
      (firstWindow (qHyperCube (cubeLayout mode 5)) defaultOptions) 1 = (Throws modeFault, 2)"
    for mode
    by (simp add: fetch_stub mismatchAnswer_def)
  have row: "startRow defaultOptions < qcy (qSize (qHyperCube (cubeLayout mode 5)))" for mode
    by (simp add: defaultOptions_def cubeLayout_def)
  have page: "0 < maxPages defaultOptions"
    by (simp add: defaultOptions_def)
  from mode_mismatch_one_fallback [OF lay first mode nocap second row page, of 125000]
    mode nocap
  show ?thesis
    by (simp add: defaultOptions_def cubeLayout_def primaryMethod_def totalColsOf_def
        firstWindow_def)
qed

text \<open>
  C4 as stated, with at most one mode switch in the whole extraction and a switch to
  the other fetch call, fails. The fallback is decided anew on every page: when the
  pivot call always reports a mode mismatch and the straight call succeeds, each of the
  two pages of the first run starts with the pivot call and falls back to the straight
  call, so the second mismatch does not stop the extraction. And on a straight-table
  cube whose every fetch reports a mode mismatch, the second run, the fallback repeats
  \<open>getHyperCubeData\<close>, the call that has just failed.
\<close>

theorem mode_switch_repeats_on_every_page:
  "extractPivotData 125000 (stub (cubeLayout ''EQ_DATA_MODE_PIVOT'' 2) pivotMismatchAnswer)
     (defaultOptions\<lparr>pageSize := 1\<rparr>) 0 =
   Some (Inr \<lparr>extractedData.data = [0, 1],
               metadata = \<lparr>metadata.dimensions = [\<lparr>qFallbackTitle = ''Region''\<rparr>],
                 measures = [], totalRows = 2, totalColumns = 1, extractedRows = 2,
                 pageSize = 1, pagesProcessed = 2\<rparr>\<rparr>,
         4,
         [(GetHyperCubePivotData, \<lparr>qTop = 0, qLeft = 0, qHeight = 1, qWidth = 1\<rparr>),
          (GetHyperCubeData, \<lparr>qTop = 0, qLeft = 0, qHeight = 1, qWidth = 1\<rparr>),
          (GetHyperCubePivotData, \<lparr>qTop = 1, qLeft = 0, qHeight = 1, qWidth = 1\<rparr>),
          (GetHyperCubeData, \<lparr>qTop = 1, qLeft = 0, qHeight = 1, qWidth = 1\<rparr>)])
   \<and> extractPivotData 125000 (stub (cubeLayout ''EQ_DATA_MODE_STRAIGHT'' 2) mismatchAnswer)
     (defaultOptions\<lparr>pageSize := 1\<rparr>) 0 =
   Some (Inr \<lparr>extractedData.data = [],
               metadata = \<lparr>metadata.dimensions = [\<lparr>qFallbackTitle = ''Region''\<rparr>],
                 measures = [], totalRows = 2, totalColumns = 1, extractedRows = 0,
                 pageSize = 1, pagesProcessed = 0\<rparr>\<rparr>,
         2,
         [(GetHyperCubeData, \<lparr>qTop = 0, qLeft = 0, qHeight = 1, qWidth = 1\<rparr>),
          (GetHyperCubeData, \<lparr>qTop = 0, qLeft = 0, qHeight = 1, qWidth = 1\<rparr>)])"
  by (simp add: run_defs extractLoop.simps step_defs pivotMismatchAnswer_def mismatchAnswer_def
      modeFault_def Let_def upto.simps)

subsection \<open>C5: the window height after a capacity fault\<close>

text \<open>
  C5, as amended. A capacity fault on the first fetch of a page halves the height (not
  below 10) for the single retry of that window only. When the retry returns a matrix
  (of no more rows than the engine accepts as arguments) and the loop goes on, the
  cursor has advanced by the number of rows returned and the next fetch asks again for
  \<open>min(pageSize, totalRows - currentRow)\<close> rows: the shrunk height is not kept. The
  extraction continues from the answer \<open>r3\<close> of that next fetch, whatever it is.
\<close>

theorem shrink_is_not_sticky:
  assumes row: "currentRow st < qcy (qSize hc)" and page: "pagesProcessed st < maxPages opts"
    and first: "fetch obj (primaryMethod hc)
              \<lparr>qTop = currentRow st, qLeft = startCol opts,
               qHeight = min (pageSize opts) (qcy (qSize hc) - currentRow st),
               qWidth = tc\<rparr> (engine st) = (Throws e, s1)"
    and cap: "pageTooLarge e"
    and retry: "fetch obj GetHyperCubeData
              \<lparr>qTop = currentRow st, qLeft = startCol opts,
               qHeight = max 10 (min (pageSize opts) (qcy (qSize hc) - currentRow st) div 2),
               qWidth = tc\<rparr> s1 = (Resolves pd, s2)"
    and some: "matrixOf pd = Some m" and fits: "length m \<le> lim"
    and row': "currentRow st + int (length m) < qcy (qSize hc)"
    and page': "pagesProcessed st + 1 < maxPages opts"
    and nxt: "fetch obj (primaryMethod hc)
              \<lparr>qTop = currentRow st + int (length m), qLeft = startCol opts,
               qHeight = min (pageSize opts) (qcy (qSize hc) - (currentRow st + int (length m))),
               qWidth = tc\<rparr> s2 = (r3, s3)"
  shows "extractLoop lim obj hc opts tc st =
     (let st3 = \<lparr>allData = allData st @ m,
                 currentRow = currentRow st + int (length m),
                 pagesProcessed = pagesProcessed st + 1,
                 engine = s3,
                 calls = calls st @
                   [(primaryMethod hc,
                     \<lparr>qTop = currentRow st, qLeft = startCol opts,
                      qHeight = min (pageSize opts) (qcy (qSize hc) - currentRow st),
                      qWidth = tc\<rparr>),
                    (GetHyperCubeData,
                     \<lparr>qTop = currentRow st, qLeft = startCol opts,
                      qHeight = max 10 (min (pageSize opts) (qcy (qSize hc) - currentRow st) div 2),
                      qWidth = tc\<rparr>),
                    (primaryMethod hc,
                     \<lparr>qTop = currentRow st + int (length m), qLeft = startCol opts,
                      qHeight = min (pageSize opts)
                                  (qcy (qSize hc) - (currentRow st + int (length m))),
                      qWidth = tc\<rparr>)]\<rparr>;
          n3 = min (pageSize opts) (qcy (qSize hc) - (currentRow st + int (length m)))
      in case (case r3 of
                 Throws e3 \<Rightarrow> onPageError lim obj opts tc n3 e3 st3
               | Resolves pd3 \<Rightarrow>
                   (case matrixOf pd3 of
                      None \<Rightarrow> Break st3
                    | Some m3 \<Rightarrow>
                        if length m3 \<le> lim then
                          Continue (st3\<lparr>allData := allData st3 @ m3,
                                         currentRow := currentRow st3 + n3,
                                         pagesProcessed := pagesProcessed st3 + 1\<rparr>)
                        else Break st3)) of
           Continue st' \<Rightarrow> extractLoop lim obj hc opts tc st'
         | Break st' \<Rightarrow> Some st')"
proof -
  let ?n = "rowsToFetch hc opts st"
  let ?w1 = "pageWindow opts tc st ?n"
  let ?w2 = "pageWindow opts tc st (max 10 (?n div 2))"
  let ?st1 = "st\<lparr>engine := s1, calls := calls st @ [(primaryMethod hc, ?w1)]\<rparr>"
  let ?st2 = "?st1\<lparr>engine := s2, calls := calls ?st1 @ [(GetHyperCubeData, ?w2)]\<rparr>"
  let ?st2' = "?st2\<lparr>allData := allData ?st2 @ m,
                      currentRow := currentRow ?st2 + int (length m),
                      pagesProcessed := pagesProcessed ?st2 + 1\<rparr>"
  let ?n3 = "rowsToFetch hc opts ?st2'"
  let ?w3 = "pageWindow opts tc ?st2' ?n3"
  let ?st3 = "?st2'\<lparr>engine := s3, calls := calls ?st2' @ [(primaryMethod hc, ?w3)]\<rparr>"
  have primary: "invoke obj (primaryMethod hc) ?w1 st = (Throws e, ?st1)"
    using first by (simp add: invoke_def pageWindow_def rowsToFetch_def)
  have again: "invoke obj GetHyperCubeData (pageWindow opts tc ?st1 (max 10 (?n div 2))) ?st1 =
      (Resolves pd, ?st2)"
    using retry by (simp add: invoke_def pageWindow_def rowsToFetch_def)
  have step1: "pageStep lim obj hc opts tc st = Continue ?st2'"
    using some fits
    by (simp add: step_fault [OF primary] onPageError_capacity [OF cap again])
  have loop1: "extractLoop lim obj hc opts tc st = extractLoop lim obj hc opts tc ?st2'"
    using row page step1 by (rule loop_continue)
  have third: "invoke obj (primaryMethod hc) ?w3 ?st2' = (r3, ?st3)"
    using nxt by (simp add: invoke_def pageWindow_def rowsToFetch_def)
  have cond: "currentRow ?st2' < qcy (qSize hc) \<and> pagesProcessed ?st2' < maxPages opts"
    using row' page' by simp
  have step2: "pageStep lim obj hc opts tc ?st2' =
      (case r3 of
         Throws e3 \<Rightarrow> onPageError lim obj opts tc ?n3 e3 ?st3
       | Resolves pd3 \<Rightarrow>
           (case matrixOf pd3 of
              None \<Rightarrow> Break ?st3
            | Some m3 \<Rightarrow>
                if length m3 \<le> lim then
                  Continue (?st3\<lparr>allData := allData ?st3 @ m3,
                                  currentRow := currentRow ?st3 + ?n3,
                                  pagesProcessed := pagesProcessed ?st3 + 1\<rparr>)
                else Break ?st3))"
    using third rangeError_unclassified
    by (simp add: pageStep_def tryPage_def Let_def onPageError_fatal
        split: response.splits option.splits)
  have loop2: "extractLoop lim obj hc opts tc ?st2' =
      (case pageStep lim obj hc opts tc ?st2' of
         Continue st' \<Rightarrow> extractLoop lim obj hc opts tc st'
       | Break st' \<Rightarrow> Some st')"
    using cond by (subst extractLoop.simps) simp
  have final: "extractLoop lim obj hc opts tc st =
      (case (case r3 of
         Throws e3 \<Rightarrow> onPageError lim obj opts tc ?n3 e3 ?st3
       | Resolves pd3 \<Rightarrow>
           (case matrixOf pd3 of
              None \<Rightarrow> Break ?st3
            | Some m3 \<Rightarrow>
                if length m3 \<le> lim then
                  Continue (?st3\<lparr>allData := allData ?st3 @ m3,
                                  currentRow := currentRow ?st3 + ?n3,
                                  pagesProcessed := pagesProcessed ?st3 + 1\<rparr>)
                else Break ?st3)) of
         Continue st' \<Rightarrow> extractLoop lim obj hc opts tc st'
       | Break st' \<Rightarrow> Some st')"
    by (simp only: loop1 loop2 step2)
  have st3: "?st3 = \<lparr>allData = allData st @ m,
                 currentRow = currentRow st + int (length m),
                 pagesProcessed = pagesProcessed st + 1,
                 engine = s3,
                 calls = calls st @
                   [(primaryMethod hc,
                     \<lparr>qTop = currentRow st, qLeft = startCol opts,
                      qHeight = min (pageSize opts) (qcy (qSize hc) - currentRow st),
                      qWidth = tc\<rparr>),
                    (GetHyperCubeData,
                     \<lparr>qTop = currentRow st, qLeft = startCol opts,
                      qHeight = max 10 (min (pageSize opts) (qcy (qSize hc) - currentRow st) div 2),
                      qWidth = tc\<rparr>),
                    (primaryMethod hc,
                     \<lparr>qTop = currentRow st + int (length m), qLeft = startCol opts,
                      qHeight = min (pageSize opts)
                                  (qcy (qSize hc) - (currentRow st + int (length m))),
                      qWidth = tc\<rparr>)]\<rparr>"
    by (cases st) (simp add: pageWindow_def rowsToFetch_def)
  have n3: "?n3 = min (pageSize opts) (qcy (qSize hc) - (currentRow st + int (length m)))"
    by (simp add: rowsToFetch_def)
  note final' = final [unfolded st3]
  note final'' = final' [unfolded n3]
  show ?thesis
    unfolding Let_def by (rule final'')
qed

text \<open>
  Witness for C5: pages of 20 rows on a cube of 30 rows; the retry asks for 10 rows,
  the next window again for 20, and a fatal fault on that fetch ends the run.
\<close>

theorem shrink_is_not_sticky_witness:
  "pageTooLarge tooLargeFault
   \<and> extractLoop 125000
       (stub (cubeLayout ''EQ_DATA_MODE_PIVOT'' 30)
          (scriptedAnswer [Throws tooLargeFault, onePage [0, 1, 2, 3, 4, 5, 6, 7, 8, 9],
             Throws fatalFault]))
       (qHyperCube (cubeLayout ''EQ_DATA_MODE_PIVOT'' 30)) (defaultOptions\<lparr>pageSize := 20\<rparr>) 1
       (initialState (defaultOptions\<lparr>pageSize := 20\<rparr>) 0) =
     Some \<lparr>allData = [0 :: int, 1, 2, 3, 4, 5, 6, 7, 8, 9], currentRow = 10,
            pagesProcessed = 1, engine = 3,
            calls =
              [(GetHyperCubePivotData, \<lparr>qTop = 0, qLeft = 0, qHeight = 20, qWidth = 1\<rparr>),
               (GetHyperCubeData, \<lparr>qTop = 0, qLeft = 0, qHeight = 10, qWidth = 1\<rparr>),
               (GetHyperCubePivotData, \<lparr>qTop = 10, qLeft = 0, qHeight = 20, qWidth = 1\<rparr>)]\<rparr>"
proof -
  let ?lay = "cubeLayout ''EQ_DATA_MODE_PIVOT'' 30"
  let ?m = "[0 :: int, 1, 2, 3, 4, 5, 6, 7, 8, 9]"
  let ?answer = "scriptedAnswer [Throws tooLargeFault, onePage ?m, Throws fatalFault]"
  let ?obj = "stub ?lay ?answer"
  let ?hc = "qHyperCube ?lay"
  let ?opts = "defaultOptions\<lparr>pageSize := 20\<rparr>"
  let ?st = "initialState ?opts 0 :: (nat, int) extraction"
  have row: "currentRow ?st < qcy (qSize ?hc)" and page: "pagesProcessed ?st < maxPages ?opts"
    by (simp_all add: initialState_def defaultOptions_def cubeLayout_def)
  have first: "fetch ?obj (primaryMethod ?hc)
      \<lparr>qTop = currentRow ?st, qLeft = startCol ?opts,
       qHeight = min (pageSize ?opts) (qcy (qSize ?hc) - currentRow ?st),
       qWidth = 1\<rparr> (engine ?st) = (Throws tooLargeFault, 1)"
    by (simp add: fetch_stub scriptedAnswer_def initialState_def)
  have cap: "pageTooLarge tooLargeFault"
    by (simp add: pageTooLarge_def tooLargeFault_def)
  have retry: "fetch ?obj GetHyperCubeData
      \<lparr>qTop = currentRow ?st, qLeft = startCol ?opts,
       qHeight = max 10 (min (pageSize ?opts) (qcy (qSize ?hc) - currentRow ?st) div 2),
       qWidth = 1\<rparr> 1 = (Resolves (Some [\<lparr>qMatrix = Some ?m\<rparr>]), 2)"
    by (simp add: fetch_stub scriptedAnswer_def onePage_def)
  have some: "matrixOf (Some [\<lparr>qMatrix = Some ?m\<rparr>]) = Some ?m"
    by (simp add: matrixOf_def)
  have fits: "length ?m \<le> 125000"
    by simp
  have row': "currentRow ?st + int (length ?m) < qcy (qSize ?hc)"
    and page': "pagesProcessed ?st + 1 < maxPages ?opts"
    by (simp_all add: initialState_def defaultOptions_def cubeLayout_def)
  have nxt: "fetch ?obj (primaryMethod ?hc)
      \<lparr>qTop = currentRow ?st + int (length ?m), qLeft = startCol ?opts,
       qHeight = min (pageSize ?opts) (qcy (qSize ?hc) - (currentRow ?st + int (length ?m))),
       qWidth = 1\<rparr> 2 = (Throws fatalFault, 3)"
    by (simp add: fetch_stub scriptedAnswer_def)
  have fatal: "\<not> pageTooLarge fatalFault" "\<not> notInPivotMode fatalFault"
    "\<not> requestAborted fatalFault"
    by (simp_all add: pageTooLarge_def notInPivotMode_def requestAborted_def fatalFault_def)
  from shrink_is_not_sticky [OF row page first cap retry some fits row' page' nxt] cap fatal
  show ?thesis
    by (simp add: Let_def onPageError_fatal initialState_def defaultOptions_def cubeLayout_def
        primaryMethod_def)
qed

text \<open>
  C5 as stated, that no later window is higher than the shrunk one, fails: in this run
  the heights asked for are 20, then 10 for the retry, then 20 again.
\<close>

theorem window_grows_back_after_shrink:
  "map_option (snd \<circ> snd)
     (extractPivotData 125000 (stub (cubeLayout ''EQ_DATA_MODE_PIVOT'' 30) tooLargeOnceAnswer)
        (defaultOptions\<lparr>pageSize := 20\<rparr>) 0) =
   Some [(GetHyperCubePivotData, \<lparr>qTop = 0, qLeft = 0, qHeight = 20, qWidth = 1\<rparr>),
         (GetHyperCubeData, \<lparr>qTop = 0, qLeft = 0, qHeight = 10, qWidth = 1\<rparr>),
         (GetHyperCubePivotData, \<lparr>qTop = 10, qLeft = 0, qHeight = 20, qWidth = 1\<rparr>)]"
  by (simp add: run_defs extractLoop.simps step_defs tooLargeOnceAnswer_def tooLargeFault_def
      Let_def length_upto)

subsection \<open>C6: termination of the loop\<close>

text \<open>
  C6 says that the loop always ends, because every attempt is counted against
  \<open>maxPages\<close>. The source counts successful pages only: the branch for an aborted
  request is a bare \<open>continue\<close>, which changes neither \<open>currentRow\<close> nor
  \<open>pagesProcessed\<close>. When every fetch is rejected as aborted, on a cube of one row with
  the default options, \<open>extractPivotData\<close> never returns.
\<close>

theorem aborted_fetches_never_return:
  "extractPivotData lim (stub (cubeLayout ''EQ_DATA_MODE_PIVOT'' 1) abortedAnswer) defaultOptions 0
     = None"
proof -
  let ?obj = "stub (cubeLayout ''EQ_DATA_MODE_PIVOT'' 1) abortedAnswer"
  let ?hc = "qHyperCube (cubeLayout ''EQ_DATA_MODE_PIVOT'' 1)"
  have P: "\<forall>w s. \<exists>e s'. getHyperCubePivotData ?obj w s = (Throws e, s') \<and>
             (\<not> pageTooLarge e \<and> \<not> notInPivotMode e \<and> requestAborted e)"
    by (simp add: stub_def abortedAnswer_def abortedFault_def pageTooLarge_def
        notInPivotMode_def requestAborted_def)
  have S: "\<forall>w s. \<exists>e s'. getHyperCubeData ?obj w s = (Throws e, s') \<and>
             (\<not> pageTooLarge e \<and> \<not> notInPivotMode e \<and> requestAborted e)"
    by (simp add: stub_def abortedAnswer_def abortedFault_def pageTooLarge_def
        notInPivotMode_def requestAborted_def)
  have "extractLoop lim ?obj ?hc defaultOptions (totalColsOf ?hc defaultOptions)
      (initialState defaultOptions 0) = None"
    by (rule aborted_loop_never_returns [OF P S])
       (simp_all add: initialState_def defaultOptions_def cubeLayout_def)
  then show ?thesis
    by (simp add: extractPivotData_def stub_def Let_def)
qed

subsection \<open>C7: the partial result after a fatal fault\<close>




subsection \<open>C8: the headers and the summary of the formatter\<close>

text \<open>
  C8. For every extracted object, \<open>formatPivotData\<close> builds the headers from the
  dimension descriptors followed by the measure descriptors, in this order, named by
  their titles, typed \<open>dimension\<close> and \<open>measure\<close>, with the indices 0, 1, 2, ... in
  sequence; and the summary's \<open>totalColumns\<close> is the number of headers, which is the
  number of dimension descriptors plus the number of measure descriptors.
\<close>

theorem formatPivotData_headers:
  "map name (headers (formatPivotData r)) =
     map qFallbackTitle (metadata.dimensions (extractedData.metadata r)) @
     map qFallbackTitle (metadata.measures (extractedData.metadata r))
   \<and> map type (headers (formatPivotData r)) =
     replicate (length (metadata.dimensions (extractedData.metadata r))) ''dimension'' @
     replicate (length (metadata.measures (extractedData.metadata r))) ''measure''
   \<and> map header.index (headers (formatPivotData r)) =
     [0 ..< length (metadata.dimensions (extractedData.metadata r)) +
            length (metadata.measures (extractedData.metadata r))]
   \<and> summary.totalColumns (summary (formatPivotData r)) = length (headers (formatPivotData r))
   \<and> length (headers (formatPivotData r)) =
     length (metadata.dimensions (extractedData.metadata r)) +
     length (metadata.measures (extractedData.metadata r))"
proof (intro conjI)
  show "map name (headers (formatPivotData r)) =
     map qFallbackTitle (metadata.dimensions (extractedData.metadata r)) @
     map qFallbackTitle (metadata.measures (extractedData.metadata r))"
    by (simp add: headers_formatPivotData names_pushHeaders)
  show "map type (headers (formatPivotData r)) =
     replicate (length (metadata.dimensions (extractedData.metadata r))) ''dimension'' @
     replicate (length (metadata.measures (extractedData.metadata r))) ''measure''"
    by (simp add: headers_formatPivotData types_pushHeaders)
  show "map header.index (headers (formatPivotData r)) =
     [0 ..< length (metadata.dimensions (extractedData.metadata r)) +
            length (metadata.measures (extractedData.metadata r))]"
    using upt_add_eq_append [of 0 "length (metadata.dimensions (extractedData.metadata r))"
        "length (metadata.measures (extractedData.metadata r))"]
    by (simp add: headers_formatPivotData indices_pushHeaders length_pushHeaders)
  show "summary.totalColumns (summary (formatPivotData r)) = length (headers (formatPivotData r))"
    by (rule totalColumns_formatPivotData)
  show "length (headers (formatPivotData r)) =
     length (metadata.dimensions (extractedData.metadata r)) +
     length (metadata.measures (extractedData.metadata r))"
    by (simp add: headers_formatPivotData length_pushHeaders)
qed

subsection \<open>C9: a page without rows\<close>

text \<open>
  C9, as amended. If the first fetch of a page succeeds but the answer fails the test
  \<open>pageData && pageData.length > 0 && pageData[0].qMatrix\<close> (the answer is null, has no
  page, or its first page has no matrix), the loop ends at once: \<open>extractLoop\<close> returns
  the state reached by that one call, with the rows assembled so far, and no other call
  is issued.
\<close>

theorem no_matrix_ends_loop:
  assumes "currentRow st < qcy (qSize hc)" and "pagesProcessed st < maxPages opts"
    and primary: "invoke obj (primaryMethod hc)
             (pageWindow opts tc st (rowsToFetch hc opts st)) st = (Resolves pageData, st1)"
    and none: "matrixOf pageData = None"
  shows "extractLoop lim obj hc opts tc st = Some st1
     \<and> allData st1 = allData st
     \<and> issued lim obj hc opts tc st =
           [(primaryMethod hc, pageWindow opts tc st (rowsToFetch hc opts st))]"
proof -
  have step: "pageStep lim obj hc opts tc st = Break st1"
    using primary none by (rule step_no_matrix)
  have "extractLoop lim obj hc opts tc st = Some st1"
    using assms(1,2) step by (rule loop_break)
  moreover have "issued lim obj hc opts tc st =
           [(primaryMethod hc, pageWindow opts tc st (rowsToFetch hc opts st))]"
    using step invoke_frame(4) [OF primary] by (simp add: issued_def)
  ultimately show ?thesis using invoke_frame(1) [OF primary] by simp
qed

text \<open>Witness for C9: after a page of three rows, the second answer has no matrix.\<close>

theorem no_matrix_ends_loop_witness:
  "matrixOf (Some [\<lparr>qMatrix = None :: int list option\<rparr>]) = None
   \<and> extractLoop 125000
       (stub (cubeLayout ''EQ_DATA_MODE_PIVOT'' 9)
          (scriptedAnswer [onePage [0, 1, 2], Resolves (Some [\<lparr>qMatrix = None\<rparr>])]))
       (qHyperCube (cubeLayout ''EQ_DATA_MODE_PIVOT'' 9)) (defaultOptions\<lparr>pageSize := 3\<rparr>) 1
       \<lparr>allData = [0 :: int, 1, 2], currentRow = 3, pagesProcessed = 1, engine = 1,
        calls = [(GetHyperCubePivotData, \<lparr>qTop = 0, qLeft = 0, qHeight = 3, qWidth = 1\<rparr>)]\<rparr>
     = Some \<lparr>allData = [0, 1, 2], currentRow = 3, pagesProcessed = 1, engine = 2,
        calls = [(GetHyperCubePivotData, \<lparr>qTop = 0, qLeft = 0, qHeight = 3, qWidth = 1\<rparr>),
                 (GetHyperCubePivotData, \<lparr>qTop = 3, qLeft = 0, qHeight = 3, qWidth = 1\<rparr>)]\<rparr>"
proof -
  let ?lay = "cubeLayout ''EQ_DATA_MODE_PIVOT'' 9"
  let ?obj = "stub ?lay (scriptedAnswer [onePage [0 :: int, 1, 2],
      Resolves (Some [\<lparr>qMatrix = None\<rparr>])])"
  let ?hc = "qHyperCube ?lay"
  let ?opts = "defaultOptions\<lparr>pageSize := 3\<rparr>"
  let ?st = "\<lparr>allData = [0 :: int, 1, 2], currentRow = 3, pagesProcessed = 1, engine = 1 :: nat,
      calls = [(GetHyperCubePivotData, \<lparr>qTop = 0, qLeft = 0, qHeight = 3, qWidth = 1\<rparr>)]\<rparr>"
  let ?st1 = "\<lparr>allData = [0 :: int, 1, 2], currentRow = 3, pagesProcessed = 1, engine = 2 :: nat,
      calls = [(GetHyperCubePivotData, \<lparr>qTop = 0, qLeft = 0, qHeight = 3, qWidth = 1\<rparr>),
               (GetHyperCubePivotData, \<lparr>qTop = 3, qLeft = 0, qHeight = 3, qWidth = 1\<rparr>)]\<rparr>"
  have row: "currentRow ?st < qcy (qSize ?hc)" and page: "pagesProcessed ?st < maxPages ?opts"
    by (simp_all add: cubeLayout_def defaultOptions_def)
  have primary: "invoke ?obj (primaryMethod ?hc)
      (pageWindow ?opts 1 ?st (rowsToFetch ?hc ?opts ?st)) ?st =
      (Resolves (Some [\<lparr>qMatrix = None\<rparr>]), ?st1)"
    by (simp add: invoke_stub scriptedAnswer_def primaryMethod_def cubeLayout_def
        pageWindow_def rowsToFetch_def defaultOptions_def)
  have none: "matrixOf (Some [\<lparr>qMatrix = None :: int list option\<rparr>]) = None"
    by (simp add: matrixOf_def)
  from no_matrix_ends_loop [OF row page primary none, of 125000] none
  show ?thesis by simp
qed

text \<open>
  C9 as stated, which counts an empty matrix as no rows, fails: an empty array passes
  the test. When every answer carries an empty matrix, the loop does not end after the
  first fetch; it counts a page, advances the cursor and fetches the next window.
\<close>

theorem empty_matrix_does_not_end_loop:
  "extractPivotData 125000 (stub (cubeLayout ''EQ_DATA_MODE_PIVOT'' 2) emptyMatrixAnswer)
     (defaultOptions\<lparr>pageSize := 1\<rparr>) 0 =
   Some (Inr \<lparr>extractedData.data = [],
               metadata = \<lparr>metadata.dimensions = [\<lparr>qFallbackTitle = ''Region''\<rparr>],
                 measures = [], totalRows = 2, totalColumns = 1, extractedRows = 0,
                 pageSize = 1, pagesProcessed = 2\<rparr>\<rparr>,
         2,
         [(GetHyperCubePivotData, \<lparr>qTop = 0, qLeft = 0, qHeight = 1, qWidth = 1\<rparr>),
          (GetHyperCubePivotData, \<lparr>qTop = 1, qLeft = 0, qHeight = 1, qWidth = 1\<rparr>)])"
  by (simp add: run_defs extractLoop.simps step_defs emptyMatrixAnswer_def Let_def)

subsection \<open>C10: the call used by the capacity retry\<close>

text \<open>
  C10, as amended. Whenever the first fetch of a page, the call chosen by the layout
  mode, is rejected with a capacity fault (code 6001 or parameter \<open>Page(s) too large\<close>),
  exactly one retry follows, through \<open>getHyperCubeData\<close> whatever the layout mode, for
  the same top row with the height \<open>max 10 (n div 2)\<close>, where \<open>n\<close> is the height first
  asked for, and the extraction goes on from the answer \<open>r2\<close> of that retry: a rejected
  retry ends the loop in the remote state the retry left.
\<close>

theorem capacity_retry_uses_getHyperCubeData:
  assumes row: "currentRow st < qcy (qSize hc)" and page: "pagesProcessed st < maxPages opts"
    and first: "fetch obj (primaryMethod hc)
              \<lparr>qTop = currentRow st, qLeft = startCol opts,
               qHeight = min (pageSize opts) (qcy (qSize hc) - currentRow st),
               qWidth = tc\<rparr> (engine st) = (Throws e, s1)"
    and cap: "pageTooLarge e"
    and retry: "fetch obj GetHyperCubeData
              \<lparr>qTop = currentRow st, qLeft = startCol opts,
               qHeight = max 10 (min (pageSize opts) (qcy (qSize hc) - currentRow st) div 2),
               qWidth = tc\<rparr> s1 = (r2, s2)"
  shows "extractLoop lim obj hc opts tc st =
     (let st2 = st\<lparr>engine := s2,
                   calls := calls st @
                     [(primaryMethod hc,
                       \<lparr>qTop = currentRow st, qLeft = startCol opts,
                        qHeight = min (pageSize opts) (qcy (qSize hc) - currentRow st),
                        qWidth = tc\<rparr>),
                      (GetHyperCubeData,
                       \<lparr>qTop = currentRow st, qLeft = startCol opts,
                        qHeight =
                          max 10 (min (pageSize opts) (qcy (qSize hc) - currentRow st) div 2),
                        qWidth = tc\<rparr>)]\<rparr>
      in case r2 of
           Throws retryError \<Rightarrow> Some st2
         | Resolves pd \<Rightarrow>
             (case matrixOf pd of
                None \<Rightarrow> extractLoop lim obj hc opts tc st2
              | Some m \<Rightarrow>
                  if length m \<le> lim then
                    extractLoop lim obj hc opts tc
                      (st2\<lparr>allData := allData st @ m,
                            currentRow := currentRow st + int (length m),
                            pagesProcessed := pagesProcessed st + 1\<rparr>)
                  else Some st2))"
proof -
  let ?n = "rowsToFetch hc opts st"
  let ?w1 = "pageWindow opts tc st ?n"
  let ?w2 = "pageWindow opts tc st (max 10 (?n div 2))"
  let ?st1 = "st\<lparr>engine := s1, calls := calls st @ [(primaryMethod hc, ?w1)]\<rparr>"
  let ?st2 = "st\<lparr>engine := s2,
      calls := calls st @ [(primaryMethod hc, ?w1), (GetHyperCubeData, ?w2)]\<rparr>"
  have primary: "invoke obj (primaryMethod hc) ?w1 st = (Throws e, ?st1)"
    using first by (simp add: invoke_def pageWindow_def rowsToFetch_def)
  have again: "invoke obj GetHyperCubeData (pageWindow opts tc ?st1 (max 10 (?n div 2))) ?st1 =
      (r2, ?st2)"
    using retry by (simp add: invoke_def pageWindow_def rowsToFetch_def)
  have step: "pageStep lim obj hc opts tc st =
      (case r2 of
         Throws retryError \<Rightarrow> Break ?st2
       | Resolves pd \<Rightarrow>
           (case matrixOf pd of
              None \<Rightarrow> Continue ?st2
            | Some m \<Rightarrow>
                if length m \<le> lim then
                  Continue (?st2\<lparr>allData := allData st @ m,
                                  currentRow := currentRow st + int (length m),
                                  pagesProcessed := pagesProcessed st + 1\<rparr>)
                else Break ?st2))"
    by (simp add: step_fault [OF primary] onPageError_capacity [OF cap again]
        split: response.splits option.splits)
  have loop: "extractLoop lim obj hc opts tc st =
      (case pageStep lim obj hc opts tc st of
         Continue st' \<Rightarrow> extractLoop lim obj hc opts tc st'
       | Break st' \<Rightarrow> Some st')"
    using row page by (subst extractLoop.simps) simp
  have w: "?w1 = \<lparr>qTop = currentRow st, qLeft = startCol opts,
                        qHeight = min (pageSize opts) (qcy (qSize hc) - currentRow st),
                        qWidth = tc\<rparr>"
    "?w2 = \<lparr>qTop = currentRow st, qLeft = startCol opts,
                        qHeight =
                          max 10 (min (pageSize opts) (qcy (qSize hc) - currentRow st) div 2),
                        qWidth = tc\<rparr>"
    by (simp_all add: pageWindow_def rowsToFetch_def)
  show ?thesis
    unfolding loop step Let_def w [symmetric]
    by (simp split: response.splits option.splits)
qed

text \<open>
  Witness for C10: the retry call in straight-table mode and in pivot mode, on an engine
  that rejects every fetch as too large.
\<close>

theorem capacity_retry_uses_getHyperCubeData_witness:
  "pageTooLarge tooLargeFault
   \<and> extractLoop 125000 (stub (cubeLayout ''EQ_DATA_MODE_STRAIGHT'' 60) tooLargeAnswer)
       (qHyperCube (cubeLayout ''EQ_DATA_MODE_STRAIGHT'' 60))
       (defaultOptions\<lparr>pageSize := 30\<rparr>) 1
       (initialState (defaultOptions\<lparr>pageSize := 30\<rparr>) 0) =
     Some \<lparr>allData = [], currentRow = 0, pagesProcessed = 0, engine = 2,
            calls =
              [(GetHyperCubeData, \<lparr>qTop = 0, qLeft = 0, qHeight = 30, qWidth = 1\<rparr>),
               (GetHyperCubeData, \<lparr>qTop = 0, qLeft = 0, qHeight = 15, qWidth = 1\<rparr>)]\<rparr>
   \<and> extractLoop 125000 (stub (cubeLayout ''EQ_DATA_MODE_PIVOT'' 60) tooLargeAnswer)
       (qHyperCube (cubeLayout ''EQ_DATA_MODE_PIVOT'' 60))
       (defaultOptions\<lparr>pageSize := 30\<rparr>) 1
       (initialState (defaultOptions\<lparr>pageSize := 30\<rparr>) 0) =
     Some \<lparr>allData = [], currentRow = 0, pagesProcessed = 0, engine = 2,
            calls =
              [(GetHyperCubePivotData, \<lparr>qTop = 0, qLeft = 0, qHeight = 30, qWidth = 1\<rparr>),
               (GetHyperCubeData, \<lparr>qTop = 0, qLeft = 0, qHeight = 15, qWidth = 1\<rparr>)]\<rparr>"
proof -
  let ?opts = "defaultOptions\<lparr>pageSize := 30\<rparr>"
  let ?st = "initialState ?opts 0 :: (nat, int) extraction"
  have row: "currentRow ?st < qcy (qSize (qHyperCube (cubeLayout mode 60)))" for mode
    by (simp add: initialState_def defaultOptions_def cubeLayout_def)
  have page: "pagesProcessed ?st < maxPages ?opts"
    by (simp add: initialState_def defaultOptions_def)
  have first: "fetch (stub (cubeLayout mode 60) tooLargeAnswer)
      (primaryMethod (qHyperCube (cubeLayout mode 60)))
      \<lparr>qTop = currentRow ?st, qLeft = startCol ?opts,
       qHeight = min (pageSize ?opts) (qcy (qSize (qHyperCube (cubeLayout mode 60))) - currentRow ?st),
       qWidth = 1\<rparr> (engine ?st) = (Throws tooLargeFault, 1)" for mode
    by (simp add: fetch_stub tooLargeAnswer_def initialState_def)
  have cap: "pageTooLarge tooLargeFault"
    by (simp add: pageTooLarge_def tooLargeFault_def)
  have retry: "fetch (stub (cubeLayout mode 60) tooLargeAnswer) GetHyperCubeData
      \<lparr>qTop = currentRow ?st, qLeft = startCol ?opts,
       qHeight = max 10 (min (pageSize ?opts)
         (qcy (qSize (qHyperCube (cubeLayout mode 60))) - currentRow ?st) div 2),
       qWidth = 1\<rparr> 1 = (Throws tooLargeFault, 2)" for mode
    by (simp add: fetch_stub tooLargeAnswer_def)
  from capacity_retry_uses_getHyperCubeData [OF row page first cap retry, of 125000] cap
  show ?thesis
    by (simp add: Let_def initialState_def defaultOptions_def cubeLayout_def primaryMethod_def)
qed

text \<open>
  C10 as stated, for whenever a page fetch fails with a capacity fault, fails: only the
  first fetch of a page is retried with a halved window. When the pivot call reports a
  mode mismatch and the straight-table fallback is rejected as too large, no call of
  height 20 follows the two calls of height 40: the extraction ends.
\<close>

theorem fallback_capacity_fault_gets_no_retry:
  "extractPivotData 125000 (stub (cubeLayout ''EQ_DATA_MODE_PIVOT'' 100) fallbackTooLargeAnswer)
     (defaultOptions\<lparr>pageSize := 40\<rparr>) 0 =
   Some (Inr \<lparr>extractedData.data = [],
               metadata = \<lparr>metadata.dimensions = [\<lparr>qFallbackTitle = ''Region''\<rparr>],
                 measures = [], totalRows = 100, totalColumns = 1, extractedRows = 0,
                 pageSize = 40, pagesProcessed = 0\<rparr>\<rparr>,
         2,
         [(GetHyperCubePivotData, \<lparr>qTop = 0, qLeft = 0, qHeight = 40, qWidth = 1\<rparr>),
          (GetHyperCubeData, \<lparr>qTop = 0, qLeft = 0, qHeight = 40, qWidth = 1\<rparr>)])"
  by (simp add: run_defs extractLoop.simps step_defs fallbackTooLargeAnswer_def modeFault_def
      tooLargeFault_def Let_def)

end
